theory Spec2Isabelle
  imports Complex_Main
begin

section \<open>Values of the host application and of the IFC toolkit\<close>

text \<open>
  The module \<^verbatim>\<open>ifc_geometry.py\<close> mirrors geometric parameters between a document
  object of the CAD application and the IFC entity behind it. Lengths are Python floats
  in the source; they are modelled as exact rationals, so that the two unit conversions
  can be compared exactly. Every exception the source can raise is a value of
  \<open>error\<close>, and a function that can raise returns \<open>error + 'a\<close>.
\<close>

datatype error = AttributeError | TypeError | ValueError | ZeroDivisionError | IndexError

datatype vector = Vector rat rat rat

text \<open>
  \<^verbatim>\<open>FreeCAD.Vector(seq)\<close> builds a vector from a sequence of three floats and
  rejects a sequence of any other size; this is why the source pads two-dimensional
  points with a zero before converting them.
\<close>

fun FreeCAD_Vector :: "rat list \<Rightarrow> error + vector" where
  "FreeCAD_Vector [x, y, z] = Inr (Vector x y z)"
| "FreeCAD_Vector _ = Inl ValueError"

fun multiply :: "vector \<Rightarrow> rat \<Rightarrow> vector" where
  "multiply (Vector x y z) s = Vector (x * s) (y * s) (z * s)"

fun tuple_of_vector :: "vector \<Rightarrow> rat list" where
  "tuple_of_vector (Vector x y z) = [x, y, z]"

text \<open>The values a property of a document object holds.\<close>

datatype cad_value =
    Quantity rat
  | Vec vector
  | VectorList "vector list"
  | Str string

datatype property_type = PropertyLength | PropertyVector | PropertyVectorList

fun default_value :: "property_type \<Rightarrow> cad_value" where
  "default_value PropertyLength = Quantity 0"
| "default_value PropertyVector = Vec (Vector 0 0 0)"
| "default_value PropertyVectorList = VectorList []"

text \<open>
  A document object: the names of its properties in creation order
  (\<^verbatim>\<open>obj.PropertiesList\<close>) and the value of every attribute that
  \<^verbatim>\<open>getattr\<close> can read. Reading a name outside the map raises AttributeError.
  The host validates assignments itself; the model stores the assigned value as it is.
\<close>

record doc_object =
  PropertiesList :: "string list"
  attrs :: "string \<rightharpoonup> cad_value"

definition addProperty :: "property_type \<Rightarrow> string \<Rightarrow> doc_object \<Rightarrow> doc_object" where
  "addProperty ty name obj =
     obj\<lparr>PropertiesList := PropertiesList obj @ [name],
         attrs := (attrs obj)(name \<mapsto> default_value ty)\<rparr>"

definition setattr :: "string \<Rightarrow> cad_value \<Rightarrow> doc_object \<Rightarrow> doc_object" where
  "setattr name v obj = obj\<lparr>attrs := (attrs obj)(name \<mapsto> v)\<rparr>"

definition getattr :: "doc_object \<Rightarrow> string \<Rightarrow> error + cad_value" where
  "getattr obj name = (case attrs obj name of None \<Rightarrow> Inl AttributeError | Some v \<Rightarrow> Inr v)"

text \<open>\<^verbatim>\<open>q.Value\<close>: only a quantity has this attribute.\<close>

fun Value :: "cad_value \<Rightarrow> error + rat" where
  "Value (Quantity q) = Inr q"
| "Value _ = Inl AttributeError"

subsection \<open>IFC entities\<close>

text \<open>
  Each entity carries its step id, the target of an edit. The classes the source asks
  for by name have a constructor of their own with the attributes the source reads (a
  subtype of such a class is an entity of this constructor); an entity of any other
  class carries the list of its class names, for which \<^verbatim>\<open>is_a\<close> answers true,
  and reading one of the modelled attributes from it raises AttributeError.
\<close>

datatype ifc_point = IfcCartesianPoint nat "rat list"

datatype ifc_curve =
    IfcPolyline nat "ifc_point list"
  | OtherCurve nat "string list"

datatype ifc_profile =
    IfcRectangleProfileDef nat rat rat
  | IfcArbitraryClosedProfileDef nat ifc_curve
  | OtherProfile nat "string list"

datatype ifc_direction = IfcDirection nat "rat list"

datatype ifc_item =
    IfcExtrudedAreaSolid nat ifc_profile ifc_direction rat
  | OtherItem nat "string list"

record ifc_representation =
  RepresentationIdentifier :: "string option"
  Items :: "ifc_item list"

record ifc_product_representation =
  Representations :: "ifc_representation list"

record ifc_element =
  Representation :: "ifc_product_representation option"

fun point_id :: "ifc_point \<Rightarrow> nat" where
  "point_id (IfcCartesianPoint i _) = i"

fun Coordinates :: "ifc_point \<Rightarrow> rat list" where
  "Coordinates (IfcCartesianPoint _ cs) = cs"

text \<open>\<^verbatim>\<open>Dim\<close> is the derived attribute of the schema: the number of coordinates.\<close>

fun Dim :: "ifc_point \<Rightarrow> nat" where
  "Dim (IfcCartesianPoint _ cs) = length cs"

fun curve_id :: "ifc_curve \<Rightarrow> nat" where
  "curve_id (IfcPolyline i _) = i"
| "curve_id (OtherCurve i _) = i"

fun is_a_curve :: "ifc_curve \<Rightarrow> string \<Rightarrow> bool" where
  "is_a_curve (IfcPolyline _ _) c =
     (c \<in> set [''IfcPolyline'', ''IfcBoundedCurve'', ''IfcCurve'',
                ''IfcGeometricRepresentationItem'', ''IfcRepresentationItem''])"
| "is_a_curve (OtherCurve _ cs) c = (c \<noteq> ''IfcPolyline'' \<and> c \<in> set cs)"

fun Points :: "ifc_curve \<Rightarrow> error + ifc_point list" where
  "Points (IfcPolyline _ ps) = Inr ps"
| "Points (OtherCurve _ _) = Inl AttributeError"

fun profile_id :: "ifc_profile \<Rightarrow> nat" where
  "profile_id (IfcRectangleProfileDef i _ _) = i"
| "profile_id (IfcArbitraryClosedProfileDef i _) = i"
| "profile_id (OtherProfile i _) = i"

fun is_a_profile :: "ifc_profile \<Rightarrow> string \<Rightarrow> bool" where
  "is_a_profile (IfcRectangleProfileDef _ _ _) c =
     (c \<in> set [''IfcRectangleProfileDef'', ''IfcParameterizedProfileDef'', ''IfcProfileDef''])"
| "is_a_profile (IfcArbitraryClosedProfileDef _ _) c =
     (c \<in> set [''IfcArbitraryClosedProfileDef'', ''IfcProfileDef''])"
| "is_a_profile (OtherProfile _ cs) c =
     (c \<noteq> ''IfcRectangleProfileDef'' \<and> c \<noteq> ''IfcArbitraryClosedProfileDef'' \<and> c \<in> set cs)"

fun XDim :: "ifc_profile \<Rightarrow> error + rat" where
  "XDim (IfcRectangleProfileDef _ x _) = Inr x"
| "XDim _ = Inl AttributeError"

fun YDim :: "ifc_profile \<Rightarrow> error + rat" where
  "YDim (IfcRectangleProfileDef _ _ y) = Inr y"
| "YDim _ = Inl AttributeError"

fun OuterCurve :: "ifc_profile \<Rightarrow> error + ifc_curve" where
  "OuterCurve (IfcArbitraryClosedProfileDef _ c) = Inr c"
| "OuterCurve _ = Inl AttributeError"

fun direction_id :: "ifc_direction \<Rightarrow> nat" where
  "direction_id (IfcDirection i _) = i"

fun DirectionRatios :: "ifc_direction \<Rightarrow> rat list" where
  "DirectionRatios (IfcDirection _ rs) = rs"

fun item_id :: "ifc_item \<Rightarrow> nat" where
  "item_id (IfcExtrudedAreaSolid i _ _ _) = i"
| "item_id (OtherItem i _) = i"

fun is_a_item :: "ifc_item \<Rightarrow> string \<Rightarrow> bool" where
  "is_a_item (IfcExtrudedAreaSolid _ _ _ _) c =
     (c \<in> set [''IfcExtrudedAreaSolid'', ''IfcSweptAreaSolid'', ''IfcSolidModel'',
                ''IfcGeometricRepresentationItem'', ''IfcRepresentationItem''])"
| "is_a_item (OtherItem _ cs) c = (c \<noteq> ''IfcExtrudedAreaSolid'' \<and> c \<in> set cs)"

fun SweptArea :: "ifc_item \<Rightarrow> error + ifc_profile" where
  "SweptArea (IfcExtrudedAreaSolid _ a _ _) = Inr a"
| "SweptArea (OtherItem _ _) = Inl AttributeError"

fun ExtrudedDirection :: "ifc_item \<Rightarrow> error + ifc_direction" where
  "ExtrudedDirection (IfcExtrudedAreaSolid _ _ d _) = Inr d"
| "ExtrudedDirection (OtherItem _ _) = Inl AttributeError"

fun Depth :: "ifc_item \<Rightarrow> error + rat" where
  "Depth (IfcExtrudedAreaSolid _ _ _ d) = Inr d"
| "Depth (OtherItem _ _) = Inl AttributeError"


subsection \<open>The IFC file and the edits issued to it\<close>

text \<open>
  The toolkit's API is outside the repository. A call of
  \<^verbatim>\<open>ifcopenshell.api.run\<close> is recorded in the file's list of edits, in the order
  of the calls; so is the direct assignment \<^verbatim>\<open>elem.Points = elem_points\<close>.
  \<^verbatim>\<open>calculate_unit_scale(ifcfile)\<close> is a field of the file.
\<close>

datatype ifc_value =
    IfcReal rat
  | IfcTuple "rat list"
  | IfcVectors "vector list"
  | IfcChars string

datatype ifc_edit =
    edit_attributes nat string ifc_value
  | create_entity string nat
  | remove_product nat
  | assign_Points nat "nat list"

record ifc_file =
  unit_scale :: rat
  next_id :: nat
  edits :: "ifc_edit list"

definition calculate_unit_scale :: "ifc_file \<Rightarrow> rat" where
  "calculate_unit_scale ifcfile = unit_scale ifcfile"

definition run_edit_attributes :: "ifc_file \<Rightarrow> nat \<Rightarrow> string \<Rightarrow> ifc_value \<Rightarrow> ifc_file" where
  "run_edit_attributes ifcfile product name v =
     ifcfile\<lparr>edits := edits ifcfile @ [edit_attributes product name v]\<rparr>"

definition run_create_entity :: "ifc_file \<Rightarrow> string \<Rightarrow> ifc_file \<times> nat" where
  "run_create_entity ifcfile ifc_class =
     (ifcfile\<lparr>next_id := Suc (next_id ifcfile),
              edits := edits ifcfile @ [create_entity ifc_class (next_id ifcfile)]\<rparr>,
      next_id ifcfile)"

definition run_remove_product :: "ifc_file \<Rightarrow> nat \<Rightarrow> ifc_file" where
  "run_remove_product ifcfile product =
     ifcfile\<lparr>edits := edits ifcfile @ [remove_product product]\<rparr>"

definition set_Points :: "ifc_file \<Rightarrow> nat \<Rightarrow> ifc_point list \<Rightarrow> ifc_file" where
  "set_Points ifcfile curve ps =
     ifcfile\<lparr>edits := edits ifcfile @ [assign_Points curve (map point_id ps)]\<rparr>"

text \<open>
  What the two functions work on: the document object, the IFC element that
  \<^verbatim>\<open>ifc_tools.get_ifc_element(obj)\<close> finds for it (\<open>None\<close> when there is none) and
  the file that \<^verbatim>\<open>ifc_tools.get_ifcfile(obj)\<close> returns.
\<close>

record world =
  w_obj :: doc_object
  w_element :: "ifc_element option"
  w_ifcfile :: ifc_file

definition get_ifc_element :: "world \<Rightarrow> ifc_element option" where
  "get_ifc_element w = w_element w"

definition get_ifcfile :: "world \<Rightarrow> ifc_file" where
  "get_ifcfile w = w_ifcfile w"

text \<open>
  Modelled from the spec: \<^verbatim>\<open>ifc_tools.has_representation\<close> is not among the
  sources. The spec speaks of the ``absence of a representation''; an element has a
  representation when it exists and its \<^verbatim>\<open>Representation\<close> attribute is set.
\<close>

definition has_representation :: "ifc_element option \<Rightarrow> bool" where
  "has_representation element =
     (case element of None \<Rightarrow> False | Some e \<Rightarrow> Representation e \<noteq> None)"

text \<open>\<^verbatim>\<open>element.Representation.Representations\<close>\<close>

definition element_representations :: "ifc_element option \<Rightarrow> error + ifc_representation list" where
  "element_representations element =
     (case element of
        None \<Rightarrow> Inl AttributeError
      | Some e \<Rightarrow>
          (case Representation e of
             None \<Rightarrow> Inl AttributeError
           | Some r \<Rightarrow> Inr (Representations r)))"

section \<open>Pull-sync: \<^verbatim>\<open>add_geom_properties\<close>\<close>

definition pull_scaling :: "rat \<Rightarrow> rat" where
  "pull_scaling s = s * 1000"

text \<open>A list comprehension whose element expression can raise.\<close>

fun comprehension :: "('a \<Rightarrow> error + 'b) \<Rightarrow> 'a list \<Rightarrow> error + 'b list" where
  "comprehension f [] = Inr []"
| "comprehension f (x # xs) =
     (case f x of
        Inl e \<Rightarrow> Inl e
      | Inr y \<Rightarrow> (case comprehension f xs of Inl e \<Rightarrow> Inl e | Inr ys \<Rightarrow> Inr (y # ys)))"

definition scaled_vector :: "rat \<Rightarrow> rat list \<Rightarrow> error + vector" where
  "scaled_vector scaling p =
     (case FreeCAD_Vector p of Inl e \<Rightarrow> Inl e | Inr v \<Rightarrow> Inr (multiply v scaling))"

text \<open>Lines 74 to 88: the outer curve of an arbitrary closed profile.\<close>

definition add_polyline :: "rat \<Rightarrow> ifc_curve \<Rightarrow> doc_object \<Rightarrow> doc_object \<times> (error + unit)" where
  "add_polyline scaling curve obj =
     (if is_a_curve curve ''IfcPolyline'' then
        (let obj1 = (if ''PolylinePoints'' \<notin> set (PropertiesList obj)
                     then addProperty PropertyVectorList ''PolylinePoints'' obj else obj)
         in case Points curve of
              Inl e \<Rightarrow> (obj1, Inl e)
            | Inr ps \<Rightarrow>
                (let points = map Coordinates ps;
                     points = map (\<lambda>p. p @ [0]) (filter (\<lambda>p. length p < 3) points)
                 in case comprehension (scaled_vector scaling) points of
                      Inl e \<Rightarrow> (obj1, Inl e)
                    | Inr vs \<Rightarrow> (setattr ''PolylinePoints'' (VectorList vs) obj1, Inr ())))
      else (obj, Inr ()))"

text \<open>Lines 60 to 70: the rectangle profile.\<close>

definition add_rectangle :: "rat \<Rightarrow> ifc_profile \<Rightarrow> doc_object \<Rightarrow> doc_object \<times> (error + unit)" where
  "add_rectangle scaling area obj =
     (let obj1 = (if ''RectangleLength'' \<notin> set (PropertiesList obj)
                  then addProperty PropertyLength ''RectangleLength'' obj else obj)
      in case XDim area of
           Inl e \<Rightarrow> (obj1, Inl e)
         | Inr x \<Rightarrow>
             (let obj2 = setattr ''RectangleLength'' (Quantity (x * scaling)) obj1;
                  obj3 = (if ''RectangleWidth'' \<notin> set (PropertiesList obj2)
                          then addProperty PropertyLength ''RectangleWidth'' obj2 else obj2)
              in case YDim area of
                   Inl e \<Rightarrow> (obj3, Inl e)
                 | Inr y \<Rightarrow> (setattr ''RectangleWidth'' (Quantity (y * scaling)) obj3, Inr ())))"

text \<open>Lines 60, 73: the dispatch on the class of the swept area.\<close>

definition add_swept_area :: "rat \<Rightarrow> ifc_profile \<Rightarrow> doc_object \<Rightarrow> doc_object \<times> (error + unit)" where
  "add_swept_area scaling area obj =
     (if is_a_profile area ''IfcRectangleProfileDef'' then add_rectangle scaling area obj
      else if is_a_profile area ''IfcArbitraryClosedProfileDef'' then
        (case OuterCurve area of
           Inl e \<Rightarrow> (obj, Inl e)
         | Inr curve \<Rightarrow> add_polyline scaling curve obj)
      else (obj, Inr ()))"

text \<open>Lines 45 to 88: an item that is an extruded area solid.\<close>

definition add_extrusion :: "rat \<Rightarrow> ifc_item \<Rightarrow> doc_object \<Rightarrow> doc_object \<times> (error + unit)" where
  "add_extrusion scaling ext obj =
     (let obj1 = (if ''ExtrusionDepth'' \<notin> set (PropertiesList obj)
                  then addProperty PropertyLength ''ExtrusionDepth'' obj else obj)
      in case Depth ext of
           Inl e \<Rightarrow> (obj1, Inl e)
         | Inr d \<Rightarrow>
             (let obj2 = setattr ''ExtrusionDepth'' (Quantity (d * scaling)) obj1;
                  obj3 = (if ''ExtrusionDirection'' \<notin> set (PropertiesList obj2)
                          then addProperty PropertyVector ''ExtrusionDirection'' obj2 else obj2)
              in case ExtrudedDirection ext of
                   Inl e \<Rightarrow> (obj3, Inl e)
                 | Inr dir \<Rightarrow>
                     (case FreeCAD_Vector (DirectionRatios dir) of
                        Inl e \<Rightarrow> (obj3, Inl e)
                      | Inr v \<Rightarrow>
                          (let obj4 = setattr ''ExtrusionDirection'' (Vec v) obj3
                           in case SweptArea ext of
                                Inl e \<Rightarrow> (obj4, Inl e)
                              | Inr area \<Rightarrow> add_swept_area scaling area obj4))))"

text \<open>
  Lines 41 to 44: the body of the loop over the representations. The second branch of
  the source (\<^verbatim>\<open>elif False\<close>) is never taken.
\<close>

definition add_representation ::
  "rat \<Rightarrow> ifc_representation \<Rightarrow> doc_object \<Rightarrow> doc_object \<times> (error + unit)" where
  "add_representation scaling rep obj =
     (if RepresentationIdentifier rep = Some ''Body'' then
        (if length (Items rep) = 1 then
           (if is_a_item (Items rep ! 0) ''IfcExtrudedAreaSolid''
            then add_extrusion scaling (Items rep ! 0) obj
            else (obj, Inr ()))
         else (obj, Inr ()))
      else (obj, Inr ()))"

fun add_representations ::
  "rat \<Rightarrow> ifc_representation list \<Rightarrow> doc_object \<Rightarrow> doc_object \<times> (error + unit)" where
  "add_representations scaling [] obj = (obj, Inr ())"
| "add_representations scaling (rep # reps) obj =
     (case add_representation scaling rep obj of
        (obj1, Inl e) \<Rightarrow> (obj1, Inl e)
      | (obj1, Inr _) \<Rightarrow> add_representations scaling reps obj1)"

definition add_geom_properties :: "world \<Rightarrow> world \<times> (error + unit)" where
  "add_geom_properties w =
     (let element = get_ifc_element w
      in if \<not> has_representation element then (w, Inr ())
         else
           (let ifcfile = get_ifcfile w;
                scaling = pull_scaling (calculate_unit_scale ifcfile)
            in case element_representations element of
                 Inl e \<Rightarrow> (w, Inl e)
               | Inr reps \<Rightarrow>
                   (case add_representations scaling reps (w_obj w) of
                      (obj1, r) \<Rightarrow> (w\<lparr>w_obj := obj1\<rparr>, r))))"


section \<open>Push-sync: \<^verbatim>\<open>set_geom_property\<close>\<close>

text \<open>Line 128: dividing by a scale of zero raises.\<close>

definition push_scaling :: "rat \<Rightarrow> error + rat" where
  "push_scaling s = (if s = 0 then Inl ZeroDivisionError else Inr ((1 / 1000) / s))"

text \<open>\<^verbatim>\<open>tuple(v)\<close> of a property value; a quantity is not iterable.\<close>

fun py_tuple :: "cad_value \<Rightarrow> error + ifc_value" where
  "py_tuple (Vec v) = Inr (IfcTuple (tuple_of_vector v))"
| "py_tuple (VectorList vs) = Inr (IfcVectors vs)"
| "py_tuple (Str s) = Inr (IfcChars s)"
| "py_tuple (Quantity _) = Inl TypeError"

text \<open>
  Each branch of the source is a loop over the representations that returns from the
  function at the first representation it edits, or where it raises; when the loop ends
  the function reaches its last line and returns False. The body of a loop gives
  \<open>None\<close> to go on with the next representation.
\<close>

type_synonym outcome = "ifc_file \<times> (error + bool)"

fun for_representations ::
  "(ifc_representation \<Rightarrow> ifc_file \<Rightarrow> outcome option) \<Rightarrow> ifc_representation list \<Rightarrow>
   ifc_file \<Rightarrow> outcome" where
  "for_representations body [] ifcfile = (ifcfile, Inr False)"
| "for_representations body (rep # reps) ifcfile =
     (case body rep ifcfile of
        Some r \<Rightarrow> r
      | None \<Rightarrow> for_representations body reps ifcfile)"

text \<open>Lines 134 to 145.\<close>

definition edit_ExtrusionDepth ::
  "doc_object \<Rightarrow> string \<Rightarrow> rat \<Rightarrow> ifc_representation \<Rightarrow> ifc_file \<Rightarrow> outcome option" where
  "edit_ExtrusionDepth obj prop scaling rep ifcfile =
     (if RepresentationIdentifier rep = Some ''Body'' then
        (if length (Items rep) = 1 then
           (if is_a_item (Items rep ! 0) ''IfcExtrudedAreaSolid'' then
              (let elem = Items rep ! 0
               in case getattr obj prop of
                    Inl e \<Rightarrow> Some (ifcfile, Inl e)
                  | Inr v \<Rightarrow>
                      (case Value v of
                         Inl e \<Rightarrow> Some (ifcfile, Inl e)
                       | Inr q \<Rightarrow>
                           (let depth = q * scaling
                            in Some (run_edit_attributes ifcfile (item_id elem) ''Depth''
                                       (IfcReal depth),
                                     Inr True))))
            else None)
         else None)
      else None)"

text \<open>Lines 149 to 160.\<close>

definition edit_ExtrusionDirection ::
  "doc_object \<Rightarrow> string \<Rightarrow> rat \<Rightarrow> ifc_representation \<Rightarrow> ifc_file \<Rightarrow> outcome option" where
  "edit_ExtrusionDirection obj prop scaling rep ifcfile =
     (if RepresentationIdentifier rep = Some ''Body'' then
        (if length (Items rep) = 1 then
           (if is_a_item (Items rep ! 0) ''IfcExtrudedAreaSolid'' then
              (case ExtrudedDirection (Items rep ! 0) of
                 Inl e \<Rightarrow> Some (ifcfile, Inl e)
               | Inr elem \<Rightarrow>
                   (case getattr obj prop of
                      Inl e \<Rightarrow> Some (ifcfile, Inl e)
                    | Inr v \<Rightarrow>
                        (case py_tuple v of
                           Inl e \<Rightarrow> Some (ifcfile, Inl e)
                         | Inr direction \<Rightarrow>
                             Some (run_edit_attributes ifcfile (direction_id elem)
                                     ''DirectionRatios'' direction,
                                   Inr True))))
            else None)
         else None)
      else None)"

text \<open>
  Lines 164 to 176 and 180 to 192: the two branches differ in the attribute they edit
  (\<^verbatim>\<open>XDim\<close> for RectangleLength, \<^verbatim>\<open>YDim\<close> for RectangleWidth).
\<close>

definition edit_rectangle ::
  "string \<Rightarrow> doc_object \<Rightarrow> string \<Rightarrow> rat \<Rightarrow> ifc_representation \<Rightarrow> ifc_file \<Rightarrow> outcome option" where
  "edit_rectangle attribute obj prop scaling rep ifcfile =
     (if RepresentationIdentifier rep = Some ''Body'' then
        (if length (Items rep) = 1 then
           (if is_a_item (Items rep ! 0) ''IfcExtrudedAreaSolid'' then
              (case SweptArea (Items rep ! 0) of
                 Inl e \<Rightarrow> Some (ifcfile, Inl e)
               | Inr elem \<Rightarrow>
                   (if is_a_profile elem ''IfcRectangleProfileDef'' then
                      (case getattr obj prop of
                         Inl e \<Rightarrow> Some (ifcfile, Inl e)
                       | Inr v \<Rightarrow>
                           (case Value v of
                              Inl e \<Rightarrow> Some (ifcfile, Inl e)
                            | Inr q \<Rightarrow>
                                (let val = q * scaling
                                 in Some (run_edit_attributes ifcfile (profile_id elem)
                                            attribute (IfcReal val),
                                          Inr True))))
                    else None))
            else None)
         else None)
      else None)"

definition edit_RectangleLength ::
  "doc_object \<Rightarrow> string \<Rightarrow> rat \<Rightarrow> ifc_representation \<Rightarrow> ifc_file \<Rightarrow> outcome option" where
  "edit_RectangleLength = edit_rectangle ''XDim''"

definition edit_RectangleWidth ::
  "doc_object \<Rightarrow> string \<Rightarrow> rat \<Rightarrow> ifc_representation \<Rightarrow> ifc_file \<Rightarrow> outcome option" where
  "edit_RectangleWidth = edit_rectangle ''YDim''"

text \<open>Lines 205 to 211: one new point entity per missing point, appended to the list.\<close>

fun create_points :: "nat \<Rightarrow> ifc_point list \<Rightarrow> ifc_file \<Rightarrow> ifc_file \<times> ifc_point list" where
  "create_points 0 elem_points ifcfile = (ifcfile, elem_points)"
| "create_points (Suc k) elem_points ifcfile =
     (case run_create_entity ifcfile ''IfcCartesianPoint'' of
        (ifcfile1, p) \<Rightarrow> create_points k (elem_points @ [IfcCartesianPoint p []]) ifcfile1)"

text \<open>Lines 218 to 221.\<close>

fun remove_points :: "ifc_point list \<Rightarrow> ifc_file \<Rightarrow> ifc_file" where
  "remove_points [] ifcfile = ifcfile"
| "remove_points (r # rest) ifcfile = remove_points rest (run_remove_product ifcfile (point_id r))"

text \<open>
  Lines 204 to 221: the list of point entities is brought to the length \<open>n\<close> of the
  list of the document object. \<^verbatim>\<open>pop()\<close> takes from the end, so \<open>rest\<close> holds the
  removed entities last one first.
\<close>

definition resize_points ::
  "nat \<Rightarrow> nat \<Rightarrow> ifc_point list \<Rightarrow> ifc_file \<Rightarrow> ifc_file \<times> ifc_point list" where
  "resize_points n curve elem_points ifcfile =
     (if n > length elem_points then
        (case create_points (n - length elem_points) elem_points ifcfile of
           (ifcfile1, elem_points1) \<Rightarrow> (set_Points ifcfile1 curve elem_points1, elem_points1))
      else if n < length elem_points then
        (let rest = rev (drop n elem_points);
             elem_points1 = take n elem_points;
             ifcfile1 = set_Points ifcfile curve elem_points1
         in (remove_points rest ifcfile1, elem_points1))
      else (ifcfile, elem_points))"

text \<open>Line 225: \<^verbatim>\<open>tuple(v)[:psize]\<close>.\<close>

definition point_coord :: "rat \<Rightarrow> nat \<Rightarrow> vector \<Rightarrow> ifc_value" where
  "point_coord scaling psize p = IfcTuple (take psize (tuple_of_vector (multiply p scaling)))"

text \<open>Lines 223 to 231, over the two lists of equal length.\<close>

fun edit_points :: "rat \<Rightarrow> nat \<Rightarrow> vector list \<Rightarrow> ifc_point list \<Rightarrow> ifc_file \<Rightarrow> ifc_file" where
  "edit_points scaling psize (p # points) (e # elem_points) ifcfile =
     edit_points scaling psize points elem_points
       (run_edit_attributes ifcfile (point_id e) ''Coordinates'' (point_coord scaling psize p))"
| "edit_points scaling psize _ _ ifcfile = ifcfile"

text \<open>
  Lines 196 to 232. The test of line 198 asks whether the item of the representation
  itself is an arbitrary closed profile, and line 199 then reads its swept area. A
  property value that is not a list of vectors is rejected here with TypeError.
\<close>

definition edit_PolylinePoints ::
  "doc_object \<Rightarrow> string \<Rightarrow> rat \<Rightarrow> ifc_representation \<Rightarrow> ifc_file \<Rightarrow> outcome option" where
  "edit_PolylinePoints obj prop scaling rep ifcfile =
     (if RepresentationIdentifier rep = Some ''Body'' then
        (if length (Items rep) = 1 then
           (if is_a_item (Items rep ! 0) ''IfcArbitraryClosedProfileDef'' then
              (case SweptArea (Items rep ! 0) of
                 Inl e \<Rightarrow> Some (ifcfile, Inl e)
               | Inr area \<Rightarrow>
                   (case OuterCurve area of
                      Inl e \<Rightarrow> Some (ifcfile, Inl e)
                    | Inr elem \<Rightarrow>
                        (if is_a_curve elem ''IfcPolyline'' then
                           (case Points elem of
                              Inl e \<Rightarrow> Some (ifcfile, Inl e)
                            | Inr [] \<Rightarrow> Some (ifcfile, Inl IndexError)
                            | Inr (p0 # ps) \<Rightarrow>
                                (let elem_points = p0 # ps; psize = Dim p0
                                 in case getattr obj prop of
                                      Inl e \<Rightarrow> Some (ifcfile, Inl e)
                                    | Inr (VectorList points) \<Rightarrow>
                                        (case resize_points (length points) (curve_id elem)
                                                elem_points ifcfile of
                                           (ifcfile1, elem_points1) \<Rightarrow>
                                             (if length points = length elem_points1
                                              then Some (edit_points scaling psize points
                                                           elem_points1 ifcfile1,
                                                         Inr True)
                                              else None))
                                    | Inr _ \<Rightarrow> Some (ifcfile, Inl TypeError)))
                         else None)))
            else None)
         else None)
      else None)"

text \<open>Lines 132, 147, 162, 178 and 194: the branch for a property name, if there is one.\<close>

definition branch ::
  "doc_object \<Rightarrow> string \<Rightarrow> rat \<Rightarrow> (ifc_representation \<Rightarrow> ifc_file \<Rightarrow> outcome option) option" where
  "branch obj prop scaling =
     (if prop = ''ExtrusionDepth'' then Some (edit_ExtrusionDepth obj prop scaling)
      else if prop = ''ExtrusionDirection'' then Some (edit_ExtrusionDirection obj prop scaling)
      else if prop = ''RectangleLength'' then Some (edit_RectangleLength obj prop scaling)
      else if prop = ''RectangleWidth'' then Some (edit_RectangleWidth obj prop scaling)
      else if prop = ''PolylinePoints'' then Some (edit_PolylinePoints obj prop scaling)
      else None)"

text \<open>
  Lines 123 to 233. Line 130 prints the new value and so reads
  \<^verbatim>\<open>getattr(obj, prop)\<close> before any branch is chosen. The list of
  representations is read once here; past the test of line 124 the reading cannot fail.
\<close>

definition set_geom_property :: "world \<Rightarrow> string \<Rightarrow> world \<times> (error + bool)" where
  "set_geom_property w prop =
     (let element = get_ifc_element w
      in if \<not> has_representation element then (w, Inr False)
         else
           (let ifcfile = get_ifcfile w
            in case push_scaling (calculate_unit_scale ifcfile) of
                 Inl e \<Rightarrow> (w, Inl e)
               | Inr scaling \<Rightarrow>
                   (case getattr (w_obj w) prop of
                      Inl e \<Rightarrow> (w, Inl e)
                    | Inr _ \<Rightarrow>
                        (case element_representations element of
                           Inl e \<Rightarrow> (w, Inl e)
                         | Inr reps \<Rightarrow>
                             (case branch (w_obj w) prop scaling of
                                None \<Rightarrow> (w, Inr False)
                              | Some body \<Rightarrow>
                                  (case for_representations body reps ifcfile of
                                     (ifcfile1, r) \<Rightarrow> (w\<lparr>w_ifcfile := ifcfile1\<rparr>, r)))))))"

section \<open>The view provider \<^verbatim>\<open>ifc_vp_object\<close>\<close>

text \<open>
  The provider keeps the document object it is attached to. The two functions of
  \<^verbatim>\<open>ifc_tools\<close> it calls are parameters: \<open>tools_get_ifcfile\<close> gives the IFC
  file of an object, \<open>None\<close> when it has none, and \<open>tools_get_children\<close> the list of
  the children of an object in that file. A path is the list of its components.
\<close>

type_synonym path = "string list"

definition dirname :: "path \<Rightarrow> path" where
  "dirname p = butlast p"

definition join :: "path \<Rightarrow> string list \<Rightarrow> path" where
  "join p cs = p @ cs"

datatype slot = revealChildren_slot

datatype qaction = QAction path string "slot list"

fun action_text :: "qaction \<Rightarrow> string" where
  "action_text (QAction _ t _) = t"

record 'o view_object =
  vo_Object :: 'o

record 'o ifc_vp_object =
  Object :: "'o option"

definition attach :: "'o ifc_vp_object \<Rightarrow> 'o view_object \<Rightarrow> 'o ifc_vp_object" where
  "attach self vobj = self\<lparr>Object := Some (vo_Object vobj)\<rparr>"

definition getDisplayModes :: "'o ifc_vp_object \<Rightarrow> 'o \<Rightarrow> 'o ifc_vp_object \<times> string list" where
  "getDisplayModes self obj = (self, [])"

definition getDefaultDisplayMode :: "'o ifc_vp_object \<Rightarrow> 'o ifc_vp_object \<times> string" where
  "getDefaultDisplayMode self = (self, ''FlatLines'')"

definition setDisplayMode :: "'o ifc_vp_object \<Rightarrow> string \<Rightarrow> 'o ifc_vp_object \<times> string" where
  "setDisplayMode self mode = (self, mode)"

definition onChanged :: "'o ifc_vp_object \<Rightarrow> 'o view_object \<Rightarrow> string \<Rightarrow> 'o ifc_vp_object" where
  "onChanged self vobj prop = self"

definition updateData :: "'o ifc_vp_object \<Rightarrow> 'o \<Rightarrow> string \<Rightarrow> 'o ifc_vp_object" where
  "updateData self obj prop = self"

definition getIcon :: "path \<Rightarrow> 'o ifc_vp_object \<Rightarrow> path" where
  "getIcon module_file self = join (dirname (dirname module_file)) [''icons'', ''IFC_object.svg'']"

definition hasChildren ::
  "('o \<Rightarrow> 'f option) \<Rightarrow> ('o \<Rightarrow> 'f \<Rightarrow> 'c list) \<Rightarrow> 'o ifc_vp_object \<Rightarrow> 'o \<Rightarrow> bool" where
  "hasChildren tools_get_ifcfile tools_get_children self obj =
     (case tools_get_ifcfile obj of
        Some ifcfile \<Rightarrow> tools_get_children obj ifcfile \<noteq> []
      | None \<Rightarrow> False)"

definition setupContextMenu ::
  "('o \<Rightarrow> 'f option) \<Rightarrow> ('o \<Rightarrow> 'f \<Rightarrow> 'c list) \<Rightarrow> path \<Rightarrow> 'o ifc_vp_object \<Rightarrow>
   'o view_object \<Rightarrow> qaction list \<Rightarrow> qaction list" where
  "setupContextMenu tools_get_ifcfile tools_get_children module_file self vobj menu =
     (if hasChildren tools_get_ifcfile tools_get_children self (vo_Object vobj) then
        (let path = dirname (dirname module_file);
             icon = join path [''icons'', ''IFC.svg''];
             action1 = QAction icon ''Reveal children'' [revealChildren_slot]
         in menu @ [action1])
      else menu)"

section \<open>Shape classes\<close>

text \<open>
  The shape classes of the two functions, named: a representation that is the body and
  has one item, an extruded area solid; such a body over a rectangle profile; such a body
  over an arbitrary closed profile whose outer curve is a polyline (lines 44, 73 and 74
  of the pull-sync). \<open>shape_matches\<close> gives the shape class a property belongs to.
\<close>

definition is_body :: "ifc_representation \<Rightarrow> bool" where
  "is_body rep = (RepresentationIdentifier rep = Some ''Body'')"

definition single_item :: "ifc_representation \<Rightarrow> string \<Rightarrow> bool" where
  "single_item rep c =
     (is_body rep \<and> length (Items rep) = 1 \<and> is_a_item (Items rep ! 0) c)"

definition extrusion_body :: "ifc_representation \<Rightarrow> bool" where
  "extrusion_body rep = single_item rep ''IfcExtrudedAreaSolid''"

definition rectangle_body :: "ifc_representation \<Rightarrow> bool" where
  "rectangle_body rep =
     (extrusion_body rep \<and>
      (case SweptArea (Items rep ! 0) of
         Inl _ \<Rightarrow> False
       | Inr area \<Rightarrow> is_a_profile area ''IfcRectangleProfileDef''))"

definition polyline_body :: "ifc_representation \<Rightarrow> bool" where
  "polyline_body rep =
     (extrusion_body rep \<and>
      (case SweptArea (Items rep ! 0) of
         Inl _ \<Rightarrow> False
       | Inr area \<Rightarrow>
           is_a_profile area ''IfcArbitraryClosedProfileDef'' \<and>
           (case OuterCurve area of
              Inl _ \<Rightarrow> False
            | Inr curve \<Rightarrow> is_a_curve curve ''IfcPolyline'')))"

definition shape_matches :: "string \<Rightarrow> ifc_representation \<Rightarrow> bool" where
  "shape_matches prop rep =
     (if prop = ''ExtrusionDepth'' \<or> prop = ''ExtrusionDirection'' then extrusion_body rep
      else if prop = ''RectangleLength'' \<or> prop = ''RectangleWidth'' then rectangle_body rep
      else if prop = ''PolylinePoints'' then polyline_body rep
      else False)"

text \<open>
  A body whose single item is itself a profile definition. The schema has no such
  representation: the items of a representation are representation items, and a profile
  is the swept area of one. Line 199 raises on it.
\<close>

definition profile_item :: "ifc_representation \<Rightarrow> bool" where
  "profile_item rep = single_item rep ''IfcArbitraryClosedProfileDef''"

definition handled_properties :: "string list" where
  "handled_properties =
     [''ExtrusionDepth'', ''ExtrusionDirection'', ''RectangleLength'', ''RectangleWidth'',
      ''PolylinePoints'']"

text \<open>An element with the given list of representations.\<close>

definition element_with :: "ifc_representation list \<Rightarrow> ifc_element option" where
  "element_with reps = Some \<lparr>Representation = Some \<lparr>Representations = reps\<rparr>\<rparr>"


text \<open>
  The values the branches for the four scalar properties can convert: a quantity for the
  three lengths, anything iterable for the direction.
\<close>

definition scalar_properties :: "string list" where
  "scalar_properties =
     [''ExtrusionDepth'', ''ExtrusionDirection'', ''RectangleLength'', ''RectangleWidth'']"

definition value_fits :: "string \<Rightarrow> cad_value \<Rightarrow> bool" where
  "value_fits prop v =
     (case v of
        Quantity _ \<Rightarrow> prop \<noteq> ''ExtrusionDirection''
      | _ \<Rightarrow> prop = ''ExtrusionDirection'')"

section \<open>Pull-sync on a host that checks assignments\<close>

text \<open>
  The host rejects an assignment to a name that is not a property of the object. The
  definitions of this section are the pull-sync of lines 31 to 88 once more, with each
  assignment \<^verbatim>\<open>obj.X = v\<close> checked in this way; they are compared with the
  definitions above, where an assignment stores under any name.
\<close>

definition checked_setattr :: "string \<Rightarrow> cad_value \<Rightarrow> doc_object \<Rightarrow> error + doc_object" where
  "checked_setattr name v obj =
     (if name \<in> set (PropertiesList obj) then Inr (setattr name v obj) else Inl AttributeError)"

definition checked_add_polyline ::
  "rat \<Rightarrow> ifc_curve \<Rightarrow> doc_object \<Rightarrow> doc_object \<times> (error + unit)" where
  "checked_add_polyline scaling curve obj =
     (if is_a_curve curve ''IfcPolyline'' then
        (let obj1 = (if ''PolylinePoints'' \<notin> set (PropertiesList obj)
                     then addProperty PropertyVectorList ''PolylinePoints'' obj else obj)
         in case Points curve of
              Inl e \<Rightarrow> (obj1, Inl e)
            | Inr ps \<Rightarrow>
                (let points = map Coordinates ps;
                     points = map (\<lambda>p. p @ [0]) (filter (\<lambda>p. length p < 3) points)
                 in case comprehension (scaled_vector scaling) points of
                      Inl e \<Rightarrow> (obj1, Inl e)
                    | Inr vs \<Rightarrow>
                        (case checked_setattr ''PolylinePoints'' (VectorList vs) obj1 of
                           Inl e \<Rightarrow> (obj1, Inl e)
                         | Inr obj2 \<Rightarrow> (obj2, Inr ()))))
      else (obj, Inr ()))"

definition checked_add_rectangle ::
  "rat \<Rightarrow> ifc_profile \<Rightarrow> doc_object \<Rightarrow> doc_object \<times> (error + unit)" where
  "checked_add_rectangle scaling area obj =
     (let obj1 = (if ''RectangleLength'' \<notin> set (PropertiesList obj)
                  then addProperty PropertyLength ''RectangleLength'' obj else obj)
      in case XDim area of
           Inl e \<Rightarrow> (obj1, Inl e)
         | Inr x \<Rightarrow>
             (case checked_setattr ''RectangleLength'' (Quantity (x * scaling)) obj1 of
                Inl e \<Rightarrow> (obj1, Inl e)
              | Inr obj2 \<Rightarrow>
                  (let obj3 = (if ''RectangleWidth'' \<notin> set (PropertiesList obj2)
                               then addProperty PropertyLength ''RectangleWidth'' obj2 else obj2)
                   in case YDim area of
                        Inl e \<Rightarrow> (obj3, Inl e)
                      | Inr y \<Rightarrow>
                          (case checked_setattr ''RectangleWidth'' (Quantity (y * scaling)) obj3 of
                             Inl e \<Rightarrow> (obj3, Inl e)
                           | Inr obj4 \<Rightarrow> (obj4, Inr ())))))"

definition checked_add_swept_area ::
  "rat \<Rightarrow> ifc_profile \<Rightarrow> doc_object \<Rightarrow> doc_object \<times> (error + unit)" where
  "checked_add_swept_area scaling area obj =
     (if is_a_profile area ''IfcRectangleProfileDef'' then checked_add_rectangle scaling area obj
      else if is_a_profile area ''IfcArbitraryClosedProfileDef'' then
        (case OuterCurve area of
           Inl e \<Rightarrow> (obj, Inl e)
         | Inr curve \<Rightarrow> checked_add_polyline scaling curve obj)
      else (obj, Inr ()))"

definition checked_add_extrusion ::
  "rat \<Rightarrow> ifc_item \<Rightarrow> doc_object \<Rightarrow> doc_object \<times> (error + unit)" where
  "checked_add_extrusion scaling ext obj =
     (let obj1 = (if ''ExtrusionDepth'' \<notin> set (PropertiesList obj)
                  then addProperty PropertyLength ''ExtrusionDepth'' obj else obj)
      in case Depth ext of
           Inl e \<Rightarrow> (obj1, Inl e)
         | Inr d \<Rightarrow>
             (case checked_setattr ''ExtrusionDepth'' (Quantity (d * scaling)) obj1 of
                Inl e \<Rightarrow> (obj1, Inl e)
              | Inr obj2 \<Rightarrow>
                  (let obj3 = (if ''ExtrusionDirection'' \<notin> set (PropertiesList obj2)
                               then addProperty PropertyVector ''ExtrusionDirection'' obj2
                               else obj2)
                   in case ExtrudedDirection ext of
                        Inl e \<Rightarrow> (obj3, Inl e)
                      | Inr dir \<Rightarrow>
                          (case FreeCAD_Vector (DirectionRatios dir) of
                             Inl e \<Rightarrow> (obj3, Inl e)
                           | Inr v \<Rightarrow>
                               (case checked_setattr ''ExtrusionDirection'' (Vec v) obj3 of
                                  Inl e \<Rightarrow> (obj3, Inl e)
                                | Inr obj4 \<Rightarrow>
                                    (case SweptArea ext of
                                       Inl e \<Rightarrow> (obj4, Inl e)
                                     | Inr area \<Rightarrow>
                                         checked_add_swept_area scaling area obj4))))))"

definition checked_add_representation ::
  "rat \<Rightarrow> ifc_representation \<Rightarrow> doc_object \<Rightarrow> doc_object \<times> (error + unit)" where
  "checked_add_representation scaling rep obj =
     (if RepresentationIdentifier rep = Some ''Body'' then
        (if length (Items rep) = 1 then
           (if is_a_item (Items rep ! 0) ''IfcExtrudedAreaSolid''
            then checked_add_extrusion scaling (Items rep ! 0) obj
            else (obj, Inr ()))
         else (obj, Inr ()))
      else (obj, Inr ()))"

fun checked_add_representations ::
  "rat \<Rightarrow> ifc_representation list \<Rightarrow> doc_object \<Rightarrow> doc_object \<times> (error + unit)" where
  "checked_add_representations scaling [] obj = (obj, Inr ())"
| "checked_add_representations scaling (rep # reps) obj =
     (case checked_add_representation scaling rep obj of
        (obj1, Inl e) \<Rightarrow> (obj1, Inl e)
      | (obj1, Inr _) \<Rightarrow> checked_add_representations scaling reps obj1)"

definition checked_add_geom_properties :: "world \<Rightarrow> world \<times> (error + unit)" where
  "checked_add_geom_properties w =
     (let element = get_ifc_element w
      in if \<not> has_representation element then (w, Inr ())
         else
           (let ifcfile = get_ifcfile w;
                scaling = pull_scaling (calculate_unit_scale ifcfile)
            in case element_representations element of
                 Inl e \<Rightarrow> (w, Inl e)
               | Inr reps \<Rightarrow>
                   (case checked_add_representations scaling reps (w_obj w) of
                      (obj1, r) \<Rightarrow> (w\<lparr>w_obj := obj1\<rparr>, r))))"

section \<open>Notions used in the proofs\<close>

text \<open>
  \<open>ensure_property\<close> names the step the source repeats before each assignment:
  the property is added when its name is not yet in the list.
\<close>

definition ensure_property :: "property_type \<Rightarrow> string \<Rightarrow> doc_object \<Rightarrow> doc_object" where
  "ensure_property ty n obj = (if n \<notin> set (PropertiesList obj) then addProperty ty n obj else obj)"

text \<open>
  A step of the pull-sync keeps the property list in order: names are only added, never
  twice; an attribute changes only under a name of the list; and on an object that
  already has the names the step leaves behind, the step adds nothing and ends the
  same way.
\<close>

definition keeps :: "(doc_object \<Rightarrow> doc_object \<times> (error + unit)) \<Rightarrow> bool" where
  "keeps f \<longleftrightarrow>
     (\<forall>obj. set (PropertiesList obj) \<subseteq> set (PropertiesList (fst (f obj))) \<and>
            (distinct (PropertiesList obj) \<longrightarrow> distinct (PropertiesList (fst (f obj)))) \<and>
            (\<forall>n. attrs (fst (f obj)) n \<noteq> attrs obj n \<longrightarrow>
                 n \<in> set (PropertiesList (fst (f obj))))) \<and>
     (\<forall>obj obj2. set (PropertiesList (fst (f obj))) \<subseteq> set (PropertiesList obj2) \<longrightarrow>
        PropertiesList (fst (f obj2)) = PropertiesList obj2 \<and> snd (f obj2) = snd (f obj))"

text \<open>The outcome of a push-sync step: no edit and no success, or one edit and success.\<close>

definition one_more_edit :: "ifc_file \<Rightarrow> ifc_file \<Rightarrow> bool" where
  "one_more_edit ifcfile ifcfile1 \<longleftrightarrow>
     (\<exists>e. ifcfile1 = ifcfile\<lparr>edits := edits ifcfile @ [e]\<rparr>)"

definition at_most_one :: "ifc_file \<Rightarrow> outcome \<Rightarrow> bool" where
  "at_most_one ifcfile out \<longleftrightarrow>
     (fst out = ifcfile \<and> snd out \<noteq> Inr True) \<or>
     (one_more_edit ifcfile (fst out) \<and> snd out = Inr True)"

section \<open>Example objects and elements\<close>

definition fresh_object :: doc_object where
  "fresh_object = \<lparr>PropertiesList = [''Label''], attrs = [''Label'' \<mapsto> Str ''Wall'']\<rparr>"

definition edited_object :: doc_object where
  "edited_object =
     \<lparr>PropertiesList = [''Label'', ''ExtrusionDepth'', ''RectangleLength'', ''PolylinePoints''],
      attrs = [''Label'' \<mapsto> Str ''Wall'',
               ''ExtrusionDepth'' \<mapsto> Quantity 2500,
               ''RectangleLength'' \<mapsto> Quantity 4500,
               ''PolylinePoints'' \<mapsto>
                  VectorList [Vector 0 0 0, Vector 4000 0 0, Vector 4000 3000 0,
                              Vector 0 3000 0]]\<rparr>"

definition axis_rep :: ifc_representation where
  "axis_rep =
     \<lparr>RepresentationIdentifier = Some ''Axis'',
      Items = [OtherItem 30 [''IfcTrimmedCurve'', ''IfcBoundedCurve'', ''IfcCurve'',
                             ''IfcGeometricRepresentationItem'', ''IfcRepresentationItem'']]\<rparr>"

definition rectangle_rep :: ifc_representation where
  "rectangle_rep =
     \<lparr>RepresentationIdentifier = Some ''Body'',
      Items = [IfcExtrudedAreaSolid 10 (IfcRectangleProfileDef 11 4 2)
                 (IfcDirection 12 [0, 0, 1]) (5 / 2)]\<rparr>"

definition polyline_rep :: ifc_representation where
  "polyline_rep =
     \<lparr>RepresentationIdentifier = Some ''Body'',
      Items = [IfcExtrudedAreaSolid 20
                 (IfcArbitraryClosedProfileDef 21
                    (IfcPolyline 22 [IfcCartesianPoint 23 [0, 0], IfcCartesianPoint 24 [4, 0],
                                     IfcCartesianPoint 25 [4, 3]]))
                 (IfcDirection 26 [0, 0, 1]) 3]\<rparr>"

definition polyline3_rep :: ifc_representation where
  "polyline3_rep =
     \<lparr>RepresentationIdentifier = Some ''Body'',
      Items = [IfcExtrudedAreaSolid 20
                 (IfcArbitraryClosedProfileDef 21
                    (IfcPolyline 22 [IfcCartesianPoint 23 [0, 0, 0],
                                     IfcCartesianPoint 24 [4, 0, 0],
                                     IfcCartesianPoint 25 [4, 3, 0]]))
                 (IfcDirection 26 [0, 0, 1]) 3]\<rparr>"

definition metre_file :: ifc_file where
  "metre_file = \<lparr>unit_scale = 1, next_id = 100, edits = []\<rparr>"

definition bare_world :: world where
  "bare_world =
     \<lparr>w_obj = edited_object, w_element = Some \<lparr>Representation = None\<rparr>,
      w_ifcfile = metre_file\<rparr>"

definition axis_world :: world where
  "axis_world =
     \<lparr>w_obj = fresh_object, w_element = element_with [axis_rep], w_ifcfile = metre_file\<rparr>"

definition rectangle_world :: world where
  "rectangle_world =
     \<lparr>w_obj = fresh_object, w_element = element_with [axis_rep, rectangle_rep],
      w_ifcfile = metre_file\<rparr>"

definition rectangle_edit_world :: world where
  "rectangle_edit_world =
     \<lparr>w_obj = edited_object, w_element = element_with [axis_rep, rectangle_rep],
      w_ifcfile = metre_file\<rparr>"

definition polyline_world :: world where
  "polyline_world =
     \<lparr>w_obj = fresh_object, w_element = element_with [axis_rep, polyline_rep],
      w_ifcfile = metre_file\<rparr>"

definition polyline3_world :: world where
  "polyline3_world =
     \<lparr>w_obj = fresh_object, w_element = element_with [polyline3_rep], w_ifcfile = metre_file\<rparr>"

definition polyline_edit_world :: world where
  "polyline_edit_world =
     \<lparr>w_obj = edited_object, w_element = element_with [polyline_rep], w_ifcfile = metre_file\<rparr>"

definition two_bodies_world :: world where
  "two_bodies_world =
     \<lparr>w_obj = edited_object, w_element = element_with [axis_rep, rectangle_rep, polyline_rep],
      w_ifcfile = metre_file\<rparr>"

text \<open>The view provider's collaborators in the examples: object 1 lives in a file and
  has two children, every other object has no file.\<close>

definition example_get_ifcfile :: "nat \<Rightarrow> unit option" where
  "example_get_ifcfile obj = (if obj = 1 then Some () else None)"

definition example_get_children :: "nat \<Rightarrow> unit \<Rightarrow> nat list" where
  "example_get_children obj ifcfile = (if obj = 1 then [2, 3] else [])"


section \<open>Unit conversion\<close>

text \<open>
  C5: the two conversions are inverse to each other. For every length \<open>d\<close> and every
  unit scale \<open>s\<close> other than zero, the push factor exists, and \<open>d\<close> multiplied by the
  pull factor and then by the push factor is \<open>d\<close> again.
\<close>

theorem unit_conversions_inverse:
  "s \<noteq> 0 \<Longrightarrow> \<exists>f. push_scaling s = Inr f \<and> d * pull_scaling s * f = d"
  by (simp add: push_scaling_def pull_scaling_def)

theorem unit_conversions_inverse_witness:
  "(1 / 1000 :: rat) \<noteq> 0 \<and>
   (\<exists>f. push_scaling (1 / 1000) = Inr f \<and> 2500 * pull_scaling (1 / 1000) * f = 2500)"
  using unit_conversions_inverse [of "1 / 1000" 2500] by simp

section \<open>What each direction leaves alone\<close>

lemma add_geom_properties_frame:
  "w_ifcfile (fst (add_geom_properties w)) = w_ifcfile w \<and>
   w_element (fst (add_geom_properties w)) = w_element w"
  by (simp add: add_geom_properties_def Let_def split: sum.split prod.split)

lemma set_geom_property_frame:
  "w_obj (fst (set_geom_property w prop)) = w_obj w \<and>
   w_element (fst (set_geom_property w prop)) = w_element w"
  by (simp add: set_geom_property_def Let_def split: sum.split prod.split option.split)

text \<open>
  C7: the two directions are disjoint in effect. Whatever the input and however the call
  ends, \<open>add_geom_properties\<close> leaves the IFC file (its list of edits included) and the
  element as they were, and \<open>set_geom_property\<close> leaves the document object as it was.
\<close>

theorem sync_directions_disjoint:
  "w_ifcfile (fst (add_geom_properties w)) = w_ifcfile w \<and>
   w_element (fst (add_geom_properties w)) = w_element w \<and>
   w_obj (fst (set_geom_property w prop)) = w_obj w"
  using add_geom_properties_frame set_geom_property_frame by simp

section \<open>Pull-sync of an extrusion\<close>

lemmas example_defs = fresh_object_def edited_object_def axis_rep_def rectangle_rep_def
  polyline_rep_def polyline3_rep_def metre_file_def rectangle_world_def polyline_world_def
  polyline3_world_def polyline_edit_world_def two_bodies_world_def bare_world_def
  axis_world_def rectangle_edit_world_def

lemmas call_defs = get_ifc_element_def get_ifcfile_def has_representation_def
  element_representations_def element_with_def calculate_unit_scale_def getattr_def

lemma add_representations_filter:
  "add_representations s reps obj = add_representations s (filter is_body reps) obj"
  by (induction reps arbitrary: obj) (simp_all add: add_representation_def is_body_def)

lemma add_representations_single:
  "fst (add_representations s [rep] obj) = fst (add_representation s rep obj)"
  by (simp split: prod.split sum.split)

lemma add_representation_extrusion:
  "is_body rep \<Longrightarrow> Items rep = [IfcExtrudedAreaSolid i area dir d] \<Longrightarrow>
   add_representation s rep obj = add_extrusion s (IfcExtrudedAreaSolid i area dir d) obj"
  by (simp add: add_representation_def is_body_def)

lemma add_polyline_other:
  "n \<noteq> ''PolylinePoints'' \<Longrightarrow> attrs (fst (add_polyline s curve obj)) n = attrs obj n"
  by (simp add: add_polyline_def addProperty_def setattr_def Let_def split: sum.split)

lemma add_rectangle_other:
  "n \<noteq> ''RectangleLength'' \<Longrightarrow> n \<noteq> ''RectangleWidth'' \<Longrightarrow>
   attrs (fst (add_rectangle s area obj)) n = attrs obj n"
  by (simp add: add_rectangle_def addProperty_def setattr_def Let_def split: sum.split)

lemma add_swept_area_other:
  "n \<noteq> ''RectangleLength'' \<Longrightarrow> n \<noteq> ''RectangleWidth'' \<Longrightarrow> n \<noteq> ''PolylinePoints'' \<Longrightarrow>
   attrs (fst (add_swept_area s area obj)) n = attrs obj n"
  by (simp add: add_swept_area_def add_polyline_other add_rectangle_other split: sum.split)

lemma add_extrusion_depth_direction:
  "attrs (fst (add_extrusion s (IfcExtrudedAreaSolid i area (IfcDirection j [a, b, c]) d) obj))
     ''ExtrusionDepth'' = Some (Quantity (d * s)) \<and>
   attrs (fst (add_extrusion s (IfcExtrudedAreaSolid i area (IfcDirection j [a, b, c]) d) obj))
     ''ExtrusionDirection'' = Some (Vec (Vector a b c))"
  by (simp add: add_extrusion_def Let_def add_swept_area_other addProperty_def setattr_def)

lemma add_extrusion_rectangle:
  "attrs (fst (add_extrusion s (IfcExtrudedAreaSolid i (IfcRectangleProfileDef k x y) (IfcDirection j [a, b, c]) d) obj))
     ''RectangleLength'' = Some (Quantity (x * s)) \<and>
   attrs (fst (add_extrusion s (IfcExtrudedAreaSolid i (IfcRectangleProfileDef k x y) (IfcDirection j [a, b, c]) d) obj))
     ''RectangleWidth'' = Some (Quantity (y * s))"
  by (simp add: add_extrusion_def Let_def add_swept_area_def add_rectangle_def addProperty_def setattr_def)

lemma add_geom_properties_element_with:
  "w_element w = element_with reps \<Longrightarrow>
   w_obj (fst (add_geom_properties w)) =
     fst (add_representations (pull_scaling (unit_scale (w_ifcfile w))) reps (w_obj w))"
  by (simp add: add_geom_properties_def element_with_def get_ifc_element_def get_ifcfile_def
      has_representation_def element_representations_def calculate_unit_scale_def Let_def
      split: prod.split)

lemma add_geom_properties_one_body:
  assumes "w_element w = element_with reps" and "filter is_body reps = [rep]"
    and "Items rep = [IfcExtrudedAreaSolid i area dir d]"
  shows "w_obj (fst (add_geom_properties w)) =
     fst (add_extrusion (pull_scaling (unit_scale (w_ifcfile w)))
            (IfcExtrudedAreaSolid i area dir d) (w_obj w))"
proof -
  have "rep \<in> set (filter is_body reps)" using assms(2) by simp
  then have body: "is_body rep" by simp
  have "add_representations (pull_scaling (unit_scale (w_ifcfile w))) reps (w_obj w) =
        add_representations (pull_scaling (unit_scale (w_ifcfile w))) [rep] (w_obj w)"
    using add_representations_filter [of _ reps] assms(2) by simp
  then have "fst (add_representations (pull_scaling (unit_scale (w_ifcfile w))) reps (w_obj w)) =
        fst (add_representation (pull_scaling (unit_scale (w_ifcfile w))) rep (w_obj w))"
    by (simp only: add_representations_single)
  then show ?thesis
    by (simp only: add_geom_properties_element_with [OF assms(1)]
        add_representation_extrusion [OF body assms(3)])
qed

text \<open>
  C4: when the element has one body representation and its single item is an extruded
  area solid (with a direction of three ratios), \<open>add_geom_properties\<close> sets
  ExtrusionDepth to the depth times the unit scale times 1000 and ExtrusionDirection to
  the ratios; when the swept area is a rectangle profile it also sets RectangleLength to
  XDim and RectangleWidth to YDim, times the same factor.
\<close>

theorem pull_sync_extrusion:
  assumes "w_element w = element_with reps" and "filter is_body reps = [rep]"
    and "Items rep = [IfcExtrudedAreaSolid i area (IfcDirection j [a, b, c]) d]"
  shows "attrs (w_obj (fst (add_geom_properties w))) ''ExtrusionDepth'' =
           Some (Quantity (d * (unit_scale (w_ifcfile w) * 1000))) \<and>
         attrs (w_obj (fst (add_geom_properties w))) ''ExtrusionDirection'' =
           Some (Vec (Vector a b c)) \<and>
         (\<forall>k x y. area = IfcRectangleProfileDef k x y \<longrightarrow>
            attrs (w_obj (fst (add_geom_properties w))) ''RectangleLength'' =
              Some (Quantity (x * (unit_scale (w_ifcfile w) * 1000))) \<and>
            attrs (w_obj (fst (add_geom_properties w))) ''RectangleWidth'' =
              Some (Quantity (y * (unit_scale (w_ifcfile w) * 1000))))"
  using add_geom_properties_one_body [OF assms] add_extrusion_depth_direction
    add_extrusion_rectangle
  by (simp add: pull_scaling_def)

theorem pull_sync_extrusion_witness:
  "attrs (w_obj (fst (add_geom_properties rectangle_world))) ''ExtrusionDepth'' =
     Some (Quantity 2500) \<and>
   attrs (w_obj (fst (add_geom_properties rectangle_world))) ''ExtrusionDirection'' =
     Some (Vec (Vector 0 0 1)) \<and>
   attrs (w_obj (fst (add_geom_properties rectangle_world))) ''RectangleLength'' =
     Some (Quantity 4000) \<and>
   attrs (w_obj (fst (add_geom_properties rectangle_world))) ''RectangleWidth'' =
     Some (Quantity 2000)"
  using pull_sync_extrusion [of rectangle_world "[axis_rep, rectangle_rep]" rectangle_rep
      10 "IfcRectangleProfileDef 11 4 2" 12 0 0 1 "5 / 2"]
  by (simp add: rectangle_world_def rectangle_rep_def axis_rep_def metre_file_def is_body_def)

section \<open>Pull-sync of a polyline\<close>

lemma scaled_vector_padded: "scaled_vector s ([x, y] @ [0]) = Inr (Vector (x * s) (y * s) 0)"
  by (simp add: scaled_vector_def)

lemma is_a_item_extrusion:
  "is_a_item it ''IfcExtrudedAreaSolid'' \<Longrightarrow> \<exists>i a dir d. it = IfcExtrudedAreaSolid i a dir d"
  by (cases it) simp_all

lemma comprehension_polyline:
  "\<forall>p\<in>set ps. 2 \<le> length (Coordinates p) \<Longrightarrow>
   comprehension (scaled_vector s)
     (map (\<lambda>p. p @ [0]) (filter (\<lambda>p. length p < 3) (map Coordinates ps))) =
   Inr (map (\<lambda>p. Vector (Coordinates p ! 0 * s) (Coordinates p ! 1 * s) 0)
          (filter (\<lambda>p. length (Coordinates p) = 2) ps))"
proof (induction ps)
  case Nil
  then show ?case by simp
next
  case (Cons p ps)
  then have IH: "comprehension (scaled_vector s)
     (map (\<lambda>p. p @ [0]) (filter (\<lambda>p. length p < 3) (map Coordinates ps))) =
   Inr (map (\<lambda>p. Vector (Coordinates p ! 0 * s) (Coordinates p ! 1 * s) 0)
          (filter (\<lambda>p. length (Coordinates p) = 2) ps))"
    by simp
  from Cons.prems have len: "2 \<le> length (Coordinates p)" by simp
  show ?case
  proof (cases "length (Coordinates p) = 2")
    case True
    then obtain x y where xy: "Coordinates p = [x, y]"
      by (cases "Coordinates p"; simp; rename_tac a as; case_tac as; simp)
    show ?thesis using IH xy scaled_vector_padded [of s x y] by simp
  next
    case False
    with len have "\<not> length (Coordinates p) < 3" by simp
    then show ?thesis using IH False by simp
  qed
qed

lemma add_extrusion_polyline:
  assumes "\<forall>p\<in>set ps. 2 \<le> length (Coordinates p)"
  shows "attrs (fst (add_extrusion s
            (IfcExtrudedAreaSolid i (IfcArbitraryClosedProfileDef k (IfcPolyline c ps))
               (IfcDirection j [a, b, z]) d) obj)) ''PolylinePoints'' =
         Some (VectorList (map (\<lambda>p. Vector (Coordinates p ! 0 * s) (Coordinates p ! 1 * s) 0)
                 (filter (\<lambda>p. length (Coordinates p) = 2) ps)))"
  by (simp add: add_extrusion_def Let_def add_swept_area_def add_polyline_def
      comprehension_polyline [OF assms] setattr_def)

text \<open>
  C10: in the pull-sync of a polyline whose points all have at least two coordinates,
  every point with exactly two coordinates \<open>(x, y)\<close> is stored in PolylinePoints as the
  vector \<open>(x * s, y * s, 0)\<close>, \<open>s\<close> the pull factor, in the order of the polyline.
\<close>

theorem pull_sync_polyline_padding:
  assumes "w_element w = element_with reps" and "filter is_body reps = [rep]"
    and "Items rep = [IfcExtrudedAreaSolid i (IfcArbitraryClosedProfileDef k (IfcPolyline c ps))
                        (IfcDirection j [a, b, z]) d]"
    and "\<forall>p\<in>set ps. 2 \<le> length (Coordinates p)"
  shows "attrs (w_obj (fst (add_geom_properties w))) ''PolylinePoints'' =
           Some (VectorList
             (map (\<lambda>p. Vector (Coordinates p ! 0 * pull_scaling (unit_scale (w_ifcfile w)))
                             (Coordinates p ! 1 * pull_scaling (unit_scale (w_ifcfile w))) 0)
                (filter (\<lambda>p. length (Coordinates p) = 2) ps)))"
  using add_geom_properties_one_body [OF assms(1,2,3)] add_extrusion_polyline [OF assms(4)]
  by simp

theorem pull_sync_polyline_padding_witness:
  "attrs (w_obj (fst (add_geom_properties polyline_world))) ''PolylinePoints'' =
     Some (VectorList [Vector 0 0 0, Vector 4000 0 0, Vector 4000 3000 0])"
  using pull_sync_polyline_padding [of polyline_world "[axis_rep, polyline_rep]" polyline_rep
      20 21 22 "[IfcCartesianPoint 23 [0, 0], IfcCartesianPoint 24 [4, 0],
                 IfcCartesianPoint 25 [4, 3]]" 26 0 0 1 3]
  by (simp add: polyline_world_def polyline_rep_def axis_rep_def metre_file_def is_body_def
      pull_scaling_def)

text \<open>
  C2: the count of PolylinePoints is claimed to equal the count of points of the IFC
  polyline. The filter of line 84 keeps only the points with fewer than three
  coordinates: a polyline of three points with three coordinates each leaves an empty
  PolylinePoints behind.
\<close>

theorem polyline_3d_points_dropped:
  "add_geom_properties polyline3_world =
     (polyline3_world
        \<lparr>w_obj := \<lparr>PropertiesList = [''Label'', ''ExtrusionDepth'', ''ExtrusionDirection'',
                                       ''PolylinePoints''],
                    attrs = [''Label'' \<mapsto> Str ''Wall'',
                             ''ExtrusionDepth'' \<mapsto> Quantity 3000,
                             ''ExtrusionDirection'' \<mapsto> Vec (Vector 0 0 1),
                             ''PolylinePoints'' \<mapsto> VectorList []]\<rparr>\<rparr>,
      Inr ())"
  by (simp add: add_geom_properties_def call_defs example_defs Let_def pull_scaling_def
      add_representation_def add_extrusion_def add_swept_area_def add_polyline_def
      addProperty_def setattr_def)


section \<open>Calls that change nothing\<close>

lemma push_scaling_Inr: "s \<noteq> 0 \<Longrightarrow> push_scaling s = Inr ((1 / 1000) / s)"
  by (simp add: push_scaling_def)



lemma set_geom_property_run:
  assumes "w_element w = element_with reps" and "unit_scale (w_ifcfile w) \<noteq> 0"
    and "attrs (w_obj w) prop = Some v"
  shows "set_geom_property w prop =
     (case branch (w_obj w) prop ((1 / 1000) / unit_scale (w_ifcfile w)) of
        None \<Rightarrow> (w, Inr False)
      | Some body \<Rightarrow>
          (case for_representations body reps (w_ifcfile w) of
             (ifcfile1, r) \<Rightarrow> (w\<lparr>w_ifcfile := ifcfile1\<rparr>, r)))"
  using assms
  by (simp add: set_geom_property_def get_ifc_element_def get_ifcfile_def element_with_def
      has_representation_def element_representations_def calculate_unit_scale_def
      push_scaling_Inr getattr_def Let_def)

lemma for_representations_skip:
  "\<forall>rep\<in>set pre. body rep ifcfile = None \<Longrightarrow>
   for_representations body (pre @ rest) ifcfile = for_representations body rest ifcfile"
  by (induction pre) simp_all


lemma branch_handled:
  "branch obj prop s = None \<longleftrightarrow> prop \<notin> set handled_properties"
  by (simp add: branch_def handled_properties_def)

lemma edit_ExtrusionDepth_mismatch:
  "\<not> extrusion_body rep \<Longrightarrow> edit_ExtrusionDepth obj prop s rep ifcfile = None"
  by (simp add: edit_ExtrusionDepth_def extrusion_body_def single_item_def is_body_def)

lemma edit_ExtrusionDirection_mismatch:
  "\<not> extrusion_body rep \<Longrightarrow> edit_ExtrusionDirection obj prop s rep ifcfile = None"
  by (simp add: edit_ExtrusionDirection_def extrusion_body_def single_item_def is_body_def)

lemma edit_rectangle_mismatch:
  "\<not> rectangle_body rep \<Longrightarrow> edit_rectangle a obj prop s rep ifcfile = None"
  by (auto simp add: edit_rectangle_def rectangle_body_def extrusion_body_def single_item_def
      is_body_def split: sum.split dest: is_a_item_extrusion)

lemma edit_PolylinePoints_mismatch:
  "\<not> single_item rep ''IfcArbitraryClosedProfileDef'' \<Longrightarrow>
   edit_PolylinePoints obj prop s rep ifcfile = None"
  by (simp add: edit_PolylinePoints_def single_item_def is_body_def)

lemma branch_mismatch:
  assumes "branch obj prop s = Some body" and "\<not> shape_matches prop rep"
    and "prop = ''PolylinePoints'' \<longrightarrow> \<not> profile_item rep"
  shows "body rep ifcfile = None"
  using assms
  by (auto simp add: branch_def shape_matches_def profile_item_def edit_ExtrusionDepth_mismatch
      edit_ExtrusionDirection_mismatch edit_rectangle_mismatch edit_PolylinePoints_mismatch
      edit_RectangleLength_def edit_RectangleWidth_def split: if_splits)









section \<open>Properties are created once\<close>

lemma keepsD1: "keeps f \<Longrightarrow> set (PropertiesList obj) \<subseteq> set (PropertiesList (fst (f obj)))"
  by (simp add: keeps_def)

lemma keepsD2: "keeps f \<Longrightarrow> distinct (PropertiesList obj) \<Longrightarrow> distinct (PropertiesList (fst (f obj)))"
  by (simp add: keeps_def)

lemma keepsD3: "keeps f \<Longrightarrow> attrs (fst (f obj)) n \<noteq> attrs obj n \<Longrightarrow> n \<in> set (PropertiesList (fst (f obj)))"
  by (simp add: keeps_def)

lemma keepsD4: "keeps f \<Longrightarrow> set (PropertiesList (fst (f obj))) \<subseteq> set (PropertiesList obj2) \<Longrightarrow>
  PropertiesList (fst (f obj2)) = PropertiesList obj2 \<and> snd (f obj2) = snd (f obj)"
  by (simp add: keeps_def)

lemma keeps_return: "keeps (\<lambda>obj. (obj, r))"
  by (simp add: keeps_def)

lemma keeps_ensure: "keeps (\<lambda>obj. (ensure_property ty n obj, r))"
  unfolding keeps_def
  by (auto simp add: ensure_property_def addProperty_def split: if_splits)

lemma keeps_setattr: "keeps (\<lambda>obj. (setattr n v (ensure_property ty n obj), r))"
  unfolding keeps_def
  by (auto simp add: ensure_property_def addProperty_def setattr_def split: if_splits)

lemma keeps_seq:
  assumes f: "keeps f" and h: "keeps h"
  shows "keeps (\<lambda>obj. case f obj of (obj1, Inl e) \<Rightarrow> (obj1, Inl e) | (obj1, Inr u) \<Rightarrow> h obj1)"
    (is "keeps ?F")
proof -
  have F_fst: "fst (?F obj) = (case snd (f obj) of Inl e \<Rightarrow> fst (f obj) | Inr u \<Rightarrow> fst (h (fst (f obj))))" for obj
    by (simp split: prod.split sum.split)
  have F_snd: "snd (?F obj) = (case snd (f obj) of Inl e \<Rightarrow> Inl e | Inr u \<Rightarrow> snd (h (fst (f obj))))" for obj
    by (simp split: prod.split sum.split)
  have mono: "set (PropertiesList obj) \<subseteq> set (PropertiesList (fst (?F obj)))" for obj
    using keepsD1 [OF f, of obj] keepsD1 [OF h, of "fst (f obj)"]
    by (cases "snd (f obj)") (auto simp only: F_fst sum.case)
  have dist: "distinct (PropertiesList (fst (?F obj)))" if "distinct (PropertiesList obj)" for obj
    using keepsD2 [OF f that] keepsD2 [OF h, of "fst (f obj)"]
    by (cases "snd (f obj)") (auto simp only: F_fst sum.case)
  have ex: "n \<in> set (PropertiesList (fst (?F obj)))" if "attrs (fst (?F obj)) n \<noteq> attrs obj n" for obj n
  proof (cases "snd (f obj)")
    case (Inl e)
    then have "fst (?F obj) = fst (f obj)" by (simp only: F_fst sum.case)
    then show ?thesis using that keepsD3 [OF f, of obj n] by simp
  next
    case (Inr u)
    then have eq: "fst (?F obj) = fst (h (fst (f obj)))" by (simp only: F_fst sum.case)
    show ?thesis
    proof (cases "attrs (fst (h (fst (f obj)))) n = attrs (fst (f obj)) n")
      case True
      then have "attrs (fst (f obj)) n \<noteq> attrs obj n" using that eq by simp
      then have "n \<in> set (PropertiesList (fst (f obj)))" by (rule keepsD3 [OF f])
      then show ?thesis using keepsD1 [OF h, of "fst (f obj)"] eq by auto
    next
      case False
      then show ?thesis using keepsD3 [OF h] eq by simp
    qed
  qed
  have two: "PropertiesList (fst (?F obj2)) = PropertiesList obj2 \<and> snd (?F obj2) = snd (?F obj)"
    if sub: "set (PropertiesList (fst (?F obj))) \<subseteq> set (PropertiesList obj2)" for obj obj2
  proof (cases "snd (f obj)")
    case (Inl e)
    then have "set (PropertiesList (fst (f obj))) \<subseteq> set (PropertiesList obj2)"
      using sub by (simp only: F_fst sum.case)
    then have "PropertiesList (fst (f obj2)) = PropertiesList obj2 \<and> snd (f obj2) = snd (f obj)"
      by (rule keepsD4 [OF f])
    then show ?thesis using Inl by (simp only: F_fst F_snd sum.case)
  next
    case (Inr u)
    then have sub2: "set (PropertiesList (fst (h (fst (f obj))))) \<subseteq> set (PropertiesList obj2)"
      using sub by (simp only: F_fst sum.case)
    then have "set (PropertiesList (fst (f obj))) \<subseteq> set (PropertiesList obj2)"
      using keepsD1 [OF h, of "fst (f obj)"] by blast
    then have a: "PropertiesList (fst (f obj2)) = PropertiesList obj2 \<and> snd (f obj2) = snd (f obj)"
      by (rule keepsD4 [OF f])
    then have "set (PropertiesList (fst (h (fst (f obj))))) \<subseteq> set (PropertiesList (fst (f obj2)))"
      using sub2 by simp
    then have "PropertiesList (fst (h (fst (f obj2)))) = PropertiesList (fst (f obj2)) \<and>
               snd (h (fst (f obj2))) = snd (h (fst (f obj)))"
      by (rule keepsD4 [OF h])
    then show ?thesis using a Inr by (simp only: F_fst F_snd sum.case)
  qed
  show ?thesis
    unfolding keeps_def using mono dist ex two by blast
qed


lemma keeps_step:
  assumes "keeps (\<lambda>obj. (g obj, Inr ()))" and "keeps h"
  shows "keeps (\<lambda>obj. h (g obj))"
  using keeps_seq [OF assms] by simp

lemma keeps_rectangle: "keeps (add_rectangle s area)"
proof (cases area)
  case (IfcRectangleProfileDef k x y)
  then have "add_rectangle s area =
    (\<lambda>obj. (\<lambda>obj. (setattr ''RectangleWidth'' (Quantity (y * s))
                     (ensure_property PropertyLength ''RectangleWidth'' obj), Inr ()))
           (setattr ''RectangleLength'' (Quantity (x * s))
              (ensure_property PropertyLength ''RectangleLength'' obj)))"
    by (simp add: fun_eq_iff add_rectangle_def ensure_property_def Let_def)
  then show ?thesis using keeps_step [OF keeps_setattr keeps_setattr] by simp
next
  case (IfcArbitraryClosedProfileDef k c)
  then have "add_rectangle s area =
    (\<lambda>obj. (ensure_property PropertyLength ''RectangleLength'' obj, Inl AttributeError))"
    by (simp add: fun_eq_iff add_rectangle_def ensure_property_def Let_def)
  then show ?thesis using keeps_ensure by simp
next
  case (OtherProfile k cs)
  then have "add_rectangle s area =
    (\<lambda>obj. (ensure_property PropertyLength ''RectangleLength'' obj, Inl AttributeError))"
    by (simp add: fun_eq_iff add_rectangle_def ensure_property_def Let_def)
  then show ?thesis using keeps_ensure by simp
qed

lemma keeps_polyline: "keeps (add_polyline s curve)"
proof (cases curve)
  case (IfcPolyline c ps)
  show ?thesis
  proof (cases "comprehension (scaled_vector s)
      (map (\<lambda>p. p @ [0]) (filter (\<lambda>p. length p < 3) (map Coordinates ps)))")
    case (Inl e)
    then have "add_polyline s curve =
      (\<lambda>obj. (ensure_property PropertyVectorList ''PolylinePoints'' obj, Inl e))"
      using IfcPolyline by (simp add: fun_eq_iff add_polyline_def ensure_property_def Let_def)
    then show ?thesis using keeps_ensure by simp
  next
    case (Inr vs)
    then have "add_polyline s curve =
      (\<lambda>obj. (setattr ''PolylinePoints'' (VectorList vs)
                (ensure_property PropertyVectorList ''PolylinePoints'' obj), Inr ()))"
      using IfcPolyline by (simp add: fun_eq_iff add_polyline_def ensure_property_def Let_def)
    then show ?thesis using keeps_setattr by simp
  qed
next
  case (OtherCurve c cs)
  then have "add_polyline s curve = (\<lambda>obj. (obj, Inr ()))"
    by (simp add: fun_eq_iff add_polyline_def)
  then show ?thesis using keeps_return by simp
qed

lemma keeps_swept_area: "keeps (add_swept_area s area)"
proof -
  have "add_swept_area s area =
    (if is_a_profile area ''IfcRectangleProfileDef'' then add_rectangle s area
     else if is_a_profile area ''IfcArbitraryClosedProfileDef'' then
       (case OuterCurve area of
          Inl e \<Rightarrow> (\<lambda>obj. (obj, Inl e))
        | Inr curve \<Rightarrow> add_polyline s curve)
     else (\<lambda>obj. (obj, Inr ())))"
    by (simp add: fun_eq_iff add_swept_area_def split: sum.split)
  then show ?thesis
    by (simp add: keeps_rectangle keeps_polyline keeps_return split: sum.split)
qed

lemma keeps_extrusion: "keeps (add_extrusion s ext)"
proof (cases ext)
  case (IfcExtrudedAreaSolid i area dir d)
  show ?thesis
  proof (cases "FreeCAD_Vector (DirectionRatios dir)")
    case (Inl e)
    then have "add_extrusion s ext =
      (\<lambda>obj. (\<lambda>obj. (ensure_property PropertyVector ''ExtrusionDirection'' obj, Inl e))
             (setattr ''ExtrusionDepth'' (Quantity (d * s))
                (ensure_property PropertyLength ''ExtrusionDepth'' obj)))"
      using IfcExtrudedAreaSolid
      by (simp add: fun_eq_iff add_extrusion_def ensure_property_def Let_def)
    then show ?thesis using keeps_step [OF keeps_setattr keeps_ensure] by simp
  next
    case (Inr v)
    then have "add_extrusion s ext =
      (\<lambda>obj. (\<lambda>obj. add_swept_area s area
                     (setattr ''ExtrusionDirection'' (Vec v)
                        (ensure_property PropertyVector ''ExtrusionDirection'' obj)))
             (setattr ''ExtrusionDepth'' (Quantity (d * s))
                (ensure_property PropertyLength ''ExtrusionDepth'' obj)))"
      using IfcExtrudedAreaSolid
      by (simp add: fun_eq_iff add_extrusion_def ensure_property_def Let_def)
    then show ?thesis
      using keeps_step [OF keeps_setattr keeps_step [OF keeps_setattr keeps_swept_area]] by simp
  qed
next
  case (OtherItem i cs)
  then have "add_extrusion s ext =
    (\<lambda>obj. (ensure_property PropertyLength ''ExtrusionDepth'' obj, Inl AttributeError))"
    by (simp add: fun_eq_iff add_extrusion_def ensure_property_def Let_def)
  then show ?thesis using keeps_ensure by simp
qed

lemma keeps_representation: "keeps (add_representation s rep)"
proof -
  have "add_representation s rep =
    (if extrusion_body rep then add_extrusion s (Items rep ! 0) else (\<lambda>obj. (obj, Inr ())))"
    by (simp add: fun_eq_iff add_representation_def extrusion_body_def single_item_def is_body_def)
  then show ?thesis by (simp add: keeps_extrusion keeps_return)
qed

lemma keeps_representations: "keeps (add_representations s reps)"
proof (induction reps)
  case Nil
  have "add_representations s [] = (\<lambda>obj. (obj, Inr ()))" by (simp add: fun_eq_iff)
  then show ?case using keeps_return by simp
next
  case (Cons rep reps)
  have "add_representations s (rep # reps) =
    (\<lambda>obj. case add_representation s rep obj of
             (obj1, Inl e) \<Rightarrow> (obj1, Inl e)
           | (obj1, Inr u) \<Rightarrow> add_representations s reps obj1)"
    by (simp add: fun_eq_iff)
  then show ?case using keeps_seq [OF keeps_representation Cons.IH] by simp
qed

lemma add_geom_properties_keeps:
  "\<exists>f. keeps f \<and>
     (\<forall>w'. w_element w' = w_element w \<and> w_ifcfile w' = w_ifcfile w \<longrightarrow>
        w_obj (fst (add_geom_properties w')) = fst (f (w_obj w')) \<and>
        snd (add_geom_properties w') = snd (f (w_obj w')))"
proof (cases "has_representation (w_element w)")
  case False
  then have "\<forall>w'. w_element w' = w_element w \<and> w_ifcfile w' = w_ifcfile w \<longrightarrow>
        w_obj (fst (add_geom_properties w')) = fst ((\<lambda>obj. (obj, Inr ())) (w_obj w')) \<and>
        snd (add_geom_properties w') = snd ((\<lambda>obj. (obj, Inr ())) (w_obj w'))"
    by (simp add: add_geom_properties_def get_ifc_element_def)
  then show ?thesis using keeps_return by blast
next
  case True
  then obtain reps where reps: "element_representations (w_element w) = Inr reps"
    by (auto simp add: has_representation_def element_representations_def split: option.splits)
  have "\<forall>w'. w_element w' = w_element w \<and> w_ifcfile w' = w_ifcfile w \<longrightarrow>
        w_obj (fst (add_geom_properties w')) =
          fst (add_representations (pull_scaling (unit_scale (w_ifcfile w))) reps (w_obj w')) \<and>
        snd (add_geom_properties w') =
          snd (add_representations (pull_scaling (unit_scale (w_ifcfile w))) reps (w_obj w'))"
    using True reps
    by (simp add: add_geom_properties_def get_ifc_element_def get_ifcfile_def
        calculate_unit_scale_def Let_def split: prod.split)
  then show ?thesis using keeps_representations by blast
qed

lemma checked_add_polyline_eq:
  "checked_add_polyline s curve obj = add_polyline s curve obj"
  by (simp add: checked_add_polyline_def add_polyline_def checked_setattr_def
      addProperty_def Let_def split: sum.split)

lemma checked_add_rectangle_eq:
  "checked_add_rectangle s area obj = add_rectangle s area obj"
  by (simp add: checked_add_rectangle_def add_rectangle_def checked_setattr_def
      addProperty_def setattr_def Let_def split: sum.split)

lemma checked_add_swept_area_eq:
  "checked_add_swept_area s area obj = add_swept_area s area obj"
  by (simp add: checked_add_swept_area_def add_swept_area_def checked_add_polyline_eq
      checked_add_rectangle_eq split: sum.split)

lemma checked_add_extrusion_eq:
  "checked_add_extrusion s ext obj = add_extrusion s ext obj"
  by (simp add: checked_add_extrusion_def add_extrusion_def checked_setattr_def
      addProperty_def setattr_def Let_def checked_add_swept_area_eq split: sum.split)

lemma checked_add_representation_eq:
  "checked_add_representation s rep obj = add_representation s rep obj"
  by (simp add: checked_add_representation_def add_representation_def
      checked_add_extrusion_eq)

lemma checked_add_representations_eq:
  "checked_add_representations s reps obj = add_representations s reps obj"
  by (induction reps arbitrary: obj) (simp_all add: checked_add_representation_eq)

lemma checked_add_geom_properties_eq:
  "checked_add_geom_properties w = add_geom_properties w"
  by (simp add: checked_add_geom_properties_def add_geom_properties_def
      checked_add_representations_eq Let_def split: sum.split)

text \<open>
  C6: in \<open>add_geom_properties\<close> a property exists before it is set, and properties are
  created lazily. On a host that rejects an assignment to a name that is not a property
  of the object, the call ends the same way and leaves the same object as on a host that
  stores under any name: no assignment comes before its property. A property is added
  only when its name is not yet in the list: a second call leaves the list of property
  names as the first call left it, an attribute the call changed is under a name of the
  list, and a list without duplicates stays without duplicates.
\<close>

theorem lazy_property_creation:
  "checked_add_geom_properties w = add_geom_properties w \<and>
   PropertiesList (w_obj (fst (add_geom_properties (fst (add_geom_properties w))))) =
     PropertiesList (w_obj (fst (add_geom_properties w))) \<and>
   (\<forall>n. attrs (w_obj (fst (add_geom_properties w))) n \<noteq> attrs (w_obj w) n \<longrightarrow>
      n \<in> set (PropertiesList (w_obj (fst (add_geom_properties w))))) \<and>
   (distinct (PropertiesList (w_obj w)) \<longrightarrow>
      distinct (PropertiesList (w_obj (fst (add_geom_properties w)))))"
proof -
  obtain f where f: "keeps f"
    and run: "\<And>w'. w_element w' = w_element w \<Longrightarrow> w_ifcfile w' = w_ifcfile w \<Longrightarrow>
        w_obj (fst (add_geom_properties w')) = fst (f (w_obj w'))"
    using add_geom_properties_keeps [of w] by blast
  have first: "w_obj (fst (add_geom_properties w)) = fst (f (w_obj w))"
    by (rule run) simp_all
  have frame: "w_element (fst (add_geom_properties w)) = w_element w"
    "w_ifcfile (fst (add_geom_properties w)) = w_ifcfile w"
    by (simp_all add: add_geom_properties_def Let_def split: sum.split prod.split)
  have second: "w_obj (fst (add_geom_properties (fst (add_geom_properties w)))) =
      fst (f (fst (f (w_obj w))))"
    using run [OF frame] first by simp
  have "PropertiesList (fst (f (fst (f (w_obj w))))) = PropertiesList (fst (f (w_obj w)))"
    using keepsD4 [OF f, of "w_obj w" "fst (f (w_obj w))"] by simp
  then show ?thesis
    using first second keepsD2 [OF f, of "w_obj w"] keepsD3 [OF f, of "w_obj w"]
      checked_add_geom_properties_eq [of w]
    by simp
qed

lemma rectangle_world_pulled:
  "add_geom_properties rectangle_world =
     (rectangle_world
        \<lparr>w_obj := \<lparr>PropertiesList = [''Label'', ''ExtrusionDepth'', ''ExtrusionDirection'',
                                       ''RectangleLength'', ''RectangleWidth''],
                    attrs = [''Label'' \<mapsto> Str ''Wall'',
                             ''ExtrusionDepth'' \<mapsto> Quantity 2500,
                             ''ExtrusionDirection'' \<mapsto> Vec (Vector 0 0 1),
                             ''RectangleLength'' \<mapsto> Quantity 4000,
                             ''RectangleWidth'' \<mapsto> Quantity 2000]\<rparr>\<rparr>,
      Inr ())"
  by (simp add: add_geom_properties_def call_defs example_defs Let_def pull_scaling_def
      add_representation_def add_extrusion_def add_swept_area_def add_rectangle_def
      addProperty_def setattr_def)

theorem lazy_property_creation_witness:
  "distinct (PropertiesList (w_obj rectangle_world)) \<and>
   fst (checked_add_geom_properties rectangle_world) = fst (add_geom_properties rectangle_world) \<and>
   snd (checked_add_geom_properties rectangle_world) = Inr () \<and>
   PropertiesList (w_obj (fst (add_geom_properties rectangle_world))) =
     [''Label'', ''ExtrusionDepth'', ''ExtrusionDirection'', ''RectangleLength'',
      ''RectangleWidth''] \<and>
   PropertiesList (w_obj (fst (add_geom_properties (fst (add_geom_properties rectangle_world))))) =
     [''Label'', ''ExtrusionDepth'', ''ExtrusionDirection'', ''RectangleLength'',
      ''RectangleWidth''] \<and>
   attrs (w_obj (fst (add_geom_properties rectangle_world))) ''RectangleWidth'' \<noteq>
     attrs (w_obj rectangle_world) ''RectangleWidth'' \<and>
   ''RectangleWidth'' \<in> set (PropertiesList (w_obj (fst (add_geom_properties rectangle_world))))"
proof -
  have a: "distinct (PropertiesList (w_obj rectangle_world))"
    by (simp add: rectangle_world_def fresh_object_def)
  have b: "PropertiesList (w_obj (fst (add_geom_properties rectangle_world))) =
     [''Label'', ''ExtrusionDepth'', ''ExtrusionDirection'', ''RectangleLength'',
      ''RectangleWidth'']"
    by (simp add: rectangle_world_pulled)
  have c: "attrs (w_obj (fst (add_geom_properties rectangle_world))) ''RectangleWidth'' \<noteq>
     attrs (w_obj rectangle_world) ''RectangleWidth''"
    by (simp add: rectangle_world_pulled) (simp add: rectangle_world_def fresh_object_def)
  have d: "snd (add_geom_properties rectangle_world) = Inr ()"
    by (simp add: rectangle_world_pulled)
  show ?thesis
    using a b c d lazy_property_creation [of rectangle_world] by simp
qed

section \<open>One edit for each call\<close>

lemma one_more_edit_run: "one_more_edit f (run_edit_attributes f i n v)"
  by (auto simp add: one_more_edit_def run_edit_attributes_def)

lemma edit_ExtrusionDepth_outcome:
  "edit_ExtrusionDepth obj prop s rep f = Some out \<Longrightarrow> at_most_one f out"
  by (auto simp add: edit_ExtrusionDepth_def Let_def one_more_edit_run at_most_one_def
      split: if_splits sum.splits)

lemma edit_ExtrusionDirection_outcome:
  "edit_ExtrusionDirection obj prop s rep f = Some out \<Longrightarrow> at_most_one f out"
  by (auto simp add: edit_ExtrusionDirection_def Let_def one_more_edit_run at_most_one_def
      split: if_splits sum.splits)

lemma edit_rectangle_outcome:
  "edit_rectangle a obj prop s rep f = Some out \<Longrightarrow> at_most_one f out"
  by (auto simp add: edit_rectangle_def Let_def one_more_edit_run at_most_one_def
      split: if_splits sum.splits)

lemma is_a_item_profile:
  "is_a_item it ''IfcArbitraryClosedProfileDef'' \<Longrightarrow> SweptArea it = Inl AttributeError"
  by (cases it) simp_all

lemma edit_PolylinePoints_raises:
  "edit_PolylinePoints obj prop s rep f = Some out \<Longrightarrow> out = (f, Inl AttributeError)"
  by (auto simp add: edit_PolylinePoints_def is_a_item_profile split: if_splits)

lemma edit_PolylinePoints_outcome:
  "edit_PolylinePoints obj prop s rep f = Some out \<Longrightarrow> at_most_one f out"
  by (auto simp add: at_most_one_def dest: edit_PolylinePoints_raises)

lemma branch_outcome:
  "branch obj prop s = Some body \<Longrightarrow> body rep f = Some out \<Longrightarrow> at_most_one f out"
  by (auto simp add: branch_def edit_RectangleLength_def edit_RectangleWidth_def
      split: if_splits
      intro: edit_ExtrusionDepth_outcome edit_ExtrusionDirection_outcome edit_rectangle_outcome
        edit_PolylinePoints_outcome)

lemma for_representations_outcome:
  "\<forall>rep out. body rep f = Some out \<longrightarrow> at_most_one f out \<Longrightarrow>
   at_most_one f (for_representations body reps f)"
  by (induction reps) (auto simp add: at_most_one_def split: option.splits)

lemma set_geom_property_outcome:
  "at_most_one (w_ifcfile w)
     (w_ifcfile (fst (set_geom_property w prop)), snd (set_geom_property w prop))"
proof -
  have same: "at_most_one (w_ifcfile w) (w_ifcfile w, r)" if "r \<noteq> Inr True" for r
    using that by (simp add: at_most_one_def)
  have loop: "at_most_one (w_ifcfile w) (f1, r)"
    if "branch (w_obj w) prop s = Some body"
      and "for_representations body reps (w_ifcfile w) = (f1, r)" for s body reps f1 r
    using for_representations_outcome [of body "w_ifcfile w" reps] branch_outcome [OF that(1)]
      that(2)
    by auto
  show ?thesis
    using same
    by (auto simp add: set_geom_property_def Let_def get_ifcfile_def
        split: sum.split option.split prod.split) (metis loop)
qed

lemma value_fits_quantity:
  "value_fits prop v \<Longrightarrow> prop \<noteq> ''ExtrusionDirection'' \<Longrightarrow> \<exists>q. v = Quantity q"
  by (cases v) (simp_all add: value_fits_def)

lemma value_fits_tuple:
  "value_fits ''ExtrusionDirection'' v \<Longrightarrow> \<exists>t. py_tuple v = Inr t"
  by (cases v) (simp_all add: value_fits_def)

lemma edit_ExtrusionDepth_match:
  "extrusion_body rep \<Longrightarrow> attrs obj prop = Some (Quantity q) \<Longrightarrow>
   \<exists>f1. edit_ExtrusionDepth obj prop s rep f = Some (f1, Inr True)"
  by (simp add: edit_ExtrusionDepth_def extrusion_body_def single_item_def is_body_def
      getattr_def Let_def)

lemma edit_ExtrusionDirection_match:
  "extrusion_body rep \<Longrightarrow> attrs obj prop = Some v \<Longrightarrow> py_tuple v = Inr t \<Longrightarrow>
   \<exists>f1. edit_ExtrusionDirection obj prop s rep f = Some (f1, Inr True)"
  by (auto simp add: edit_ExtrusionDirection_def extrusion_body_def single_item_def is_body_def
      getattr_def dest: is_a_item_extrusion)

lemma edit_rectangle_match:
  "rectangle_body rep \<Longrightarrow> attrs obj prop = Some (Quantity q) \<Longrightarrow>
   \<exists>f1. edit_rectangle a obj prop s rep f = Some (f1, Inr True)"
  by (auto simp add: edit_rectangle_def rectangle_body_def extrusion_body_def single_item_def
      is_body_def getattr_def Let_def split: sum.splits)

lemma branch_match:
  assumes "prop \<in> set scalar_properties" and "branch obj prop s = Some body"
    and "shape_matches prop rep" and "attrs obj prop = Some v" and "value_fits prop v"
  shows "\<exists>f1. body rep f = Some (f1, Inr True)"
proof (cases "prop = ''ExtrusionDirection''")
  case True
  then obtain t where "py_tuple v = Inr t" using assms(5) value_fits_tuple by blast
  then show ?thesis
    using True assms(2,3,4) edit_ExtrusionDirection_match [of rep obj "prop" v t s f]
    by (auto simp add: branch_def shape_matches_def)
next
  case False
  then obtain q where "v = Quantity q" using assms(5) value_fits_quantity by blast
  then show ?thesis
    using False assms(1,2,3,4) edit_ExtrusionDepth_match [of rep obj "prop" q s f]
      edit_rectangle_match [of rep obj "prop" q _ s f]
    by (auto simp add: branch_def shape_matches_def scalar_properties_def
        edit_RectangleLength_def edit_RectangleWidth_def split: if_splits)
qed

lemma scalar_branch:
  "prop \<in> set scalar_properties \<Longrightarrow> \<exists>body. branch obj prop s = Some body"
  by (auto simp add: scalar_properties_def branch_def)

lemma one_more_edit_edits: "one_more_edit f f1 \<Longrightarrow> \<exists>e. edits f1 = edits f @ [e]"
  by (auto simp add: one_more_edit_def)

text \<open>
  C9: a call of \<open>set_geom_property\<close> adds at most one edit to the file. For the four
  scalar properties, when the representations before \<open>rep\<close> do not have the shape the
  branch looks for and \<open>rep\<close> has it, the call returns True with exactly one more edit,
  and the file it leaves is the one it would leave if \<open>rep\<close> were the only
  representation of the element: the representations after it are not edited.
\<close>

theorem first_match_only:
  "(\<exists>es. edits (w_ifcfile (fst (set_geom_property w prop))) = edits (w_ifcfile w) @ es \<and>
         length es \<le> 1) \<and>
   (w_element w = element_with (pre @ rep # post) \<and> unit_scale (w_ifcfile w) \<noteq> 0 \<and>
    attrs (w_obj w) prop = Some v \<and> value_fits prop v \<and> prop \<in> set scalar_properties \<and>
    (\<forall>r\<in>set pre. \<not> shape_matches prop r) \<and> shape_matches prop rep \<longrightarrow>
      snd (set_geom_property w prop) = Inr True \<and>
      (\<exists>e. edits (w_ifcfile (fst (set_geom_property w prop))) = edits (w_ifcfile w) @ [e]) \<and>
      w_ifcfile (fst (set_geom_property w prop)) =
        w_ifcfile (fst (set_geom_property (w\<lparr>w_element := element_with [rep]\<rparr>) prop)))"
proof (intro conjI impI)
  show "\<exists>es. edits (w_ifcfile (fst (set_geom_property w prop))) = edits (w_ifcfile w) @ es \<and>
         length es \<le> 1"
    using set_geom_property_outcome [of w "prop"]
    by (auto simp add: at_most_one_def one_more_edit_def)
next
  assume h: "w_element w = element_with (pre @ rep # post) \<and> unit_scale (w_ifcfile w) \<noteq> 0 \<and>
    attrs (w_obj w) prop = Some v \<and> value_fits prop v \<and> prop \<in> set scalar_properties \<and>
    (\<forall>r\<in>set pre. \<not> shape_matches prop r) \<and> shape_matches prop rep"
  define s where "s = (1 / 1000) / unit_scale (w_ifcfile w)"
  obtain body where body: "branch (w_obj w) prop s = Some body"
    using h scalar_branch by blast
  obtain f1 where f1: "body rep (w_ifcfile w) = Some (f1, Inr True)"
    using branch_match [OF _ body, of rep v "w_ifcfile w"] h by blast
  have "prop \<noteq> ''PolylinePoints''"
    using h by (auto simp add: scalar_properties_def)
  then have "\<forall>r\<in>set pre. body r (w_ifcfile w) = None"
    using h branch_mismatch [OF body] by blast
  then have "for_representations body (pre @ rep # post) (w_ifcfile w) =
             for_representations body (rep # post) (w_ifcfile w)"
    by (rule for_representations_skip)
  then have loop: "for_representations body (pre @ rep # post) (w_ifcfile w) = (f1, Inr True)"
    using f1 by simp
  have run: "set_geom_property w prop = (w\<lparr>w_ifcfile := f1\<rparr>, Inr True)"
    using set_geom_property_run [of w "pre @ rep # post" "prop" v] h body loop
    by (simp add: s_def)
  have run1: "set_geom_property (w\<lparr>w_element := element_with [rep]\<rparr>) prop =
      (w\<lparr>w_element := element_with [rep], w_ifcfile := f1\<rparr>, Inr True)"
    using set_geom_property_run [of "w\<lparr>w_element := element_with [rep]\<rparr>" "[rep]" "prop" v]
      h body f1
    by (simp add: s_def)
  have "at_most_one (w_ifcfile w) (f1, Inr True)"
    using branch_outcome [OF body f1] .
  then have more: "\<exists>e. edits f1 = edits (w_ifcfile w) @ [e]"
    by (auto simp add: at_most_one_def dest: one_more_edit_edits)
  show "snd (set_geom_property w prop) = Inr True" using run by simp
  show "\<exists>e. edits (w_ifcfile (fst (set_geom_property w prop))) = edits (w_ifcfile w) @ [e]"
    using run more by simp
  show "w_ifcfile (fst (set_geom_property w prop)) =
        w_ifcfile (fst (set_geom_property (w\<lparr>w_element := element_with [rep]\<rparr>) prop))"
    using run run1 by simp
qed

lemma two_bodies_world_pushed:
  "set_geom_property two_bodies_world ''ExtrusionDepth'' =
     (two_bodies_world
        \<lparr>w_ifcfile := metre_file\<lparr>edits := [edit_attributes 10 ''Depth'' (IfcReal (5 / 2))]\<rparr>\<rparr>,
      Inr True)"
  by (simp add: set_geom_property_def call_defs example_defs Let_def push_scaling_def
      branch_def edit_ExtrusionDepth_def run_edit_attributes_def)

theorem first_match_only_witness:
  "w_element two_bodies_world = element_with ([axis_rep] @ rectangle_rep # [polyline_rep]) \<and>
   shape_matches ''ExtrusionDepth'' rectangle_rep \<and>
   shape_matches ''ExtrusionDepth'' polyline_rep \<and>
   snd (set_geom_property two_bodies_world ''ExtrusionDepth'') = Inr True \<and>
   edits (w_ifcfile (fst (set_geom_property two_bodies_world ''ExtrusionDepth''))) =
     [edit_attributes 10 ''Depth'' (IfcReal (5 / 2))] \<and>
   w_ifcfile (fst (set_geom_property two_bodies_world ''ExtrusionDepth'')) =
     w_ifcfile (fst (set_geom_property
        (two_bodies_world\<lparr>w_element := element_with [rectangle_rep]\<rparr>) ''ExtrusionDepth''))"
proof -
  have a: "w_element two_bodies_world = element_with ([axis_rep] @ rectangle_rep # [polyline_rep])"
    by (simp add: two_bodies_world_def)
  have b: "unit_scale (w_ifcfile two_bodies_world) \<noteq> 0 \<and>
      attrs (w_obj two_bodies_world) ''ExtrusionDepth'' = Some (Quantity 2500) \<and>
      value_fits ''ExtrusionDepth'' (Quantity 2500) \<and>
      ''ExtrusionDepth'' \<in> set scalar_properties"
    by (simp add: two_bodies_world_def metre_file_def edited_object_def value_fits_def
        scalar_properties_def)
  have c: "\<forall>r\<in>set [axis_rep]. \<not> shape_matches ''ExtrusionDepth'' r"
    by (simp add: shape_matches_def extrusion_body_def single_item_def is_body_def axis_rep_def)
  have d: "shape_matches ''ExtrusionDepth'' rectangle_rep \<and>
           shape_matches ''ExtrusionDepth'' polyline_rep"
    by (simp add: shape_matches_def extrusion_body_def single_item_def is_body_def
        rectangle_rep_def polyline_rep_def)
  have e: "edits (w_ifcfile (fst (set_geom_property two_bodies_world ''ExtrusionDepth''))) =
     [edit_attributes 10 ''Depth'' (IfcReal (5 / 2))]"
    by (simp add: two_bodies_world_pushed)
  show ?thesis
    using a b c d e
      first_match_only [of two_bodies_world "''ExtrusionDepth''" "[axis_rep]" rectangle_rep
        "[polyline_rep]" "Quantity 2500"]
    by simp
qed

section \<open>Push-sync of the polyline points\<close>

text \<open>
  The branch for PolylinePoints asks whether the item of the representation is an
  arbitrary closed profile. An item that is one has no swept area, and an extruded area
  solid is not one: the branch edits nothing on any input.
\<close>

lemma for_representations_PolylinePoints:
  "for_representations (edit_PolylinePoints obj prop s) reps f = (f, Inr False) \<or>
   for_representations (edit_PolylinePoints obj prop s) reps f = (f, Inl AttributeError)"
  by (induction reps) (auto split: option.splits dest: edit_PolylinePoints_raises)

lemma push_PolylinePoints_never_edits:
  "fst (set_geom_property w ''PolylinePoints'') = w \<and>
   snd (set_geom_property w ''PolylinePoints'') \<noteq> Inr True"
proof -
  have loop: "f1 = w_ifcfile w \<and> r \<noteq> Inr True"
    if "for_representations (edit_PolylinePoints (w_obj w) ''PolylinePoints'' s) reps
          (w_ifcfile w) = (f1, r)" for s reps f1 r
    using for_representations_PolylinePoints [of "w_obj w" "''PolylinePoints''" s reps "w_ifcfile w"]
      that
    by auto
  show ?thesis
    by (auto simp add: set_geom_property_def Let_def get_ifcfile_def branch_def
        split: sum.split prod.split dest!: loop)
qed

text \<open>
  C1: for an extrusion over a closed polyline profile, \<open>set_geom_property\<close> with the
  name PolylinePoints is claimed to resize the list of point entities, edit the
  coordinates of each point and return True. On such an element, with four points in the
  document object and three in the polyline, the call returns False and the file has no
  edit.
\<close>

theorem polyline_push_no_edit:
  "set_geom_property polyline_edit_world ''PolylinePoints'' = (polyline_edit_world, Inr False)"
  by (simp add: set_geom_property_def call_defs example_defs Let_def push_scaling_def
      branch_def edit_PolylinePoints_def)

section \<open>The context menu of the view provider\<close>

text \<open>
  C8: \<open>setupContextMenu\<close> appends the action ``Reveal children'' to the menu when
  \<open>hasChildren\<close> holds for the object of the view, and leaves the menu as it is
  otherwise; \<open>hasChildren\<close> is false for an object without an IFC file; and
  \<open>onChanged\<close>, \<open>updateData\<close>, \<open>getDisplayModes\<close> and \<open>setDisplayMode\<close> leave the
  provider as it is, the last two returning no display modes and the mode they were given.
\<close>

theorem context_menu_reveal_children:
  "(hasChildren tools_get_ifcfile tools_get_children self (vo_Object vobj) \<longrightarrow>
      setupContextMenu tools_get_ifcfile tools_get_children module_file self vobj menu =
        menu @ [QAction (join (dirname (dirname module_file)) [''icons'', ''IFC.svg''])
                  ''Reveal children'' [revealChildren_slot]]) \<and>
   (\<not> hasChildren tools_get_ifcfile tools_get_children self (vo_Object vobj) \<longrightarrow>
      setupContextMenu tools_get_ifcfile tools_get_children module_file self vobj menu = menu) \<and>
   (tools_get_ifcfile obj = None \<longrightarrow>
      \<not> hasChildren tools_get_ifcfile tools_get_children self obj) \<and>
   onChanged self vobj prop = self \<and>
   updateData self obj prop = self \<and>
   getDisplayModes self obj = (self, []) \<and>
   setDisplayMode self mode = (self, mode)"
  by (simp add: setupContextMenu_def hasChildren_def onChanged_def updateData_def
      getDisplayModes_def setDisplayMode_def Let_def)

theorem context_menu_reveal_children_witness:
  "hasChildren example_get_ifcfile example_get_children \<lparr>Object = Some 1\<rparr> 1 \<and>
   setupContextMenu example_get_ifcfile example_get_children [''Mod'', ''ifc_viewproviders'', ''ifc_vp_object.py'']
       \<lparr>Object = Some 1\<rparr> \<lparr>vo_Object = 1\<rparr> [] =
     [QAction [''Mod'', ''icons'', ''IFC.svg''] ''Reveal children'' [revealChildren_slot]] \<and>
   example_get_ifcfile 5 = None \<and>
   \<not> hasChildren example_get_ifcfile example_get_children \<lparr>Object = Some 5\<rparr> 5 \<and>
   setupContextMenu example_get_ifcfile example_get_children [''Mod'', ''ifc_viewproviders'', ''ifc_vp_object.py'']
       \<lparr>Object = Some 5\<rparr> \<lparr>vo_Object = 5\<rparr> [] = []"
proof -
  have a: "hasChildren example_get_ifcfile example_get_children \<lparr>Object = Some 1\<rparr> 1"
    by (simp add: hasChildren_def example_get_ifcfile_def example_get_children_def)
  have b: "example_get_ifcfile 5 = None"
    by (simp add: example_get_ifcfile_def)
  show ?thesis
    using a b
      context_menu_reveal_children [of example_get_ifcfile example_get_children
        "\<lparr>Object = Some 1\<rparr>" "\<lparr>vo_Object = 1\<rparr>"
        "[''Mod'', ''ifc_viewproviders'', ''ifc_vp_object.py'']" "[]" 1]
      context_menu_reveal_children [of example_get_ifcfile example_get_children
        "\<lparr>Object = Some 5\<rparr>" "\<lparr>vo_Object = 5\<rparr>"
        "[''Mod'', ''ifc_viewproviders'', ''ifc_vp_object.py'']" "[]" 5]
    by (simp add: dirname_def join_def)
qed

end
